theory Spec2Isabelle
  imports Main "HOL-Library.Word"
begin

section \<open>The provisioning script (magefile.go) as state-passing functions\<close>

text \<open>
  The magefile is a sequence of task functions that shell out to external tools
  (kind, kubectl, docker, flux) and touch a few files. The embedding threads an
  explicit \<open>world\<close> through every function. The behaviour of everything the
  script does not implement itself (the external commands, the installer
  helpers, HTTP, the template engine, the host's interfaces, file permissions)
  is a parameter, the \<open>platform\<close>: theorems hold for every platform unless a
  hypothesis says otherwise.

  Go library semantics the embedding relies on:
  \<^item> \<open>shx.OutputE\<close> and \<open>shx.OutputS\<close> return what the command wrote to its
    standard output, and not what it wrote to its standard error;
  \<^item> \<open>shx.OutputE\<close>, \<open>shx.OutputS\<close>, \<open>shx.RunS\<close> return the failure of the
    command to the caller; the same calls on the builder \<open>must\<close>
    (\<open>StopOnError: true\<close>, "stops the build if the command fails") and
    \<open>mgx.Must\<close> on a non-nil error stop the build by a panic, so deferred calls
    of the enclosing functions still run;
  \<^item> \<open>mg.Deps\<close> runs a dependency at most once per process and passes its
    failure on;
  \<^item> Console output (\<open>log.Println\<close>, \<open>fmt.Printf\<close>, the output the runner
    echoes) is not modelled; the variants \<open>Run\<close>, \<open>RunE\<close>, \<open>RunS\<close>, \<open>RunV\<close>
    differ only there.
\<close>

subsection \<open>Constants (magefile.go, lines 32-50)\<close>

definition kindVersion :: string where
  "kindVersion = ''v0.10.0''"

definition kindClusterName :: string where
  "kindClusterName = ''porter''"

definition kubeconfig :: string where
  "kubeconfig = ''kind.config''"

definition operatorNamespace :: string where
  "operatorNamespace = ''porter-operator-system''"

definition registryContainer :: string where
  "registryContainer = ''registry''"

subsection \<open>Go standard library functions used by the script\<close>

text \<open>\<open>strings.Contains(s, substr)\<close>: \<open>substr\<close> occurs in \<open>s\<close> as a contiguous
  run of bytes. The empty string occurs in every string.\<close>

fun hasPrefix :: "string \<Rightarrow> string \<Rightarrow> bool" where
  "hasPrefix s [] = True"
| "hasPrefix [] (c # cs) = False"
| "hasPrefix (d # ds) (c # cs) = (d = c \<and> hasPrefix ds cs)"

fun strings_Contains :: "string \<Rightarrow> string \<Rightarrow> bool" where
  "strings_Contains [] substr = (substr = [])"
| "strings_Contains (c # cs) substr =
     (hasPrefix (c # cs) substr \<or> strings_Contains cs substr)"

text \<open>\<open>strconv.ParseBool\<close>: accepts exactly twelve literals; anything else is
  an error (\<open>None\<close>).\<close>

definition ParseBool :: "string \<Rightarrow> bool option" where
  "ParseBool str =
     (if str \<in> {''1'', ''t'', ''T'', ''true'', ''TRUE'', ''True''} then Some True
      else if str \<in> {''0'', ''f'', ''F'', ''false'', ''FALSE'', ''False''} then Some False
      else None)"

text \<open>\<open>net.IP\<close> is a byte slice. \<open>To4\<close> gives the four bytes of an IPv4
  address (held in 4 bytes, or in 16 bytes behind the prefix
  \<open>0:0:0:0:0:ffff\<close>); \<open>IsLoopback\<close> is \<open>127.x.y.z\<close> or \<open>::1\<close>; \<open>String\<close>
  of an IPv4 address is dotted decimal.\<close>

type_synonym IP = "8 word list"

datatype Addr =
    IPNet IP IP
  | OtherAddr string

definition To4 :: "IP \<Rightarrow> IP option" where
  "To4 ip =
     (if length ip = 4 then Some ip
      else if length ip = 16 \<and> take 10 ip = replicate 10 0
              \<and> ip ! 10 = 255 \<and> ip ! 11 = 255 then Some (drop 12 ip)
      else None)"

definition IPv6loopback :: IP where
  "IPv6loopback = replicate 15 0 @ [1]"

definition IsLoopback :: "IP \<Rightarrow> bool" where
  "IsLoopback ip =
     (case To4 ip of
        Some ip4 \<Rightarrow> ip4 ! 0 = 127
      | None \<Rightarrow> ip = IPv6loopback)"

definition digit :: "nat \<Rightarrow> char" where
  "digit n = char_of (48 + n)"

definition ubtoa :: "8 word \<Rightarrow> string" where
  "ubtoa b =
     (let v = unat b in
      if v < 10 then [digit v]
      else if v < 100 then [digit (v div 10), digit (v mod 10)]
      else [digit (v div 100), digit (v div 10 mod 10), digit (v mod 10)])"

text \<open>Only the IPv4 branch of \<open>IP.String\<close> is given: the script calls it
  behind \<open>To4() != nil\<close>. Other addresses are rendered by the parameter
  \<open>other\<close>.\<close>

definition IP_String :: "(IP \<Rightarrow> string) \<Rightarrow> IP \<Rightarrow> string" where
  "IP_String other ip =
     (case To4 ip of
        Some [a, b, c, d] \<Rightarrow> ubtoa a @ ''.'' @ ubtoa b @ ''.'' @ ubtoa c @ ''.'' @ ubtoa d
      | _ \<Rightarrow> other ip)"

subsection \<open>The world and the platform\<close>

datatype event =
    Exec "string list"
  | WriteFile string string
  | Remove string
  | Setenv string string
  | Download string string string

record 'x world =
  files :: "string \<Rightarrow> string option"
  environ :: "string \<Rightarrow> string option"
  cwd :: string
  onces :: "string list"
  trace :: "event list"
  ext :: 'x

text \<open>\<open>files\<close> is the working directory's view of the disk, \<open>environ\<close> the
  process environment, \<open>cwd\<close> what \<open>os.Getwd\<close> returns, \<open>onces\<close> the
  dependencies \<open>mg.Deps\<close> has already run, \<open>trace\<close> the effects performed so
  far (oldest first), \<open>ext\<close> the state of everything outside the process.\<close>

datatype response = Response (StatusCode: int) (Body: "string option")

record 'x platform =
  shell :: "string list \<Rightarrow> 'x world \<Rightarrow> (string \<times> string \<times> bool) \<times> 'x world"
  writable :: "string \<Rightarrow> 'x world \<Rightarrow> bool"
  removable :: "string \<Rightarrow> 'x world \<Rightarrow> bool"
  InterfaceAddrs :: "'x world \<Rightarrow> Addr list option"
  IsCommandAvailable :: "string \<Rightarrow> 'x world \<Rightarrow> bool"
  DownloadToGopathBin :: "string \<Rightarrow> string \<Rightarrow> string \<Rightarrow> 'x world \<Rightarrow> bool \<times> 'x world"
  http_Get :: "string \<Rightarrow> 'x world \<Rightarrow> response option"
  template_Parse :: "string \<Rightarrow> bool"
  template_Execute :: "string \<Rightarrow> string \<Rightarrow> string \<times> bool"
  filepath_Join :: "string \<Rightarrow> string \<Rightarrow> string"
  ip_other :: "IP \<Rightarrow> string"

text \<open>\<open>shell argv w\<close> is the run of the command line \<open>argv\<close>: what it wrote to
  standard output, what it wrote to standard error, and whether it succeeded (the
  runner's error is nil), with the world the command leaves behind. An external
  command can change the disk and the outside state; it cannot change this
  process's environment, working directory, dependency table or the record of
  effects. \<open>writable\<close> and \<open>removable\<close> say whether \<open>ioutil.WriteFile\<close> and
  \<open>os.Remove\<close> succeed on a file.\<close>

datatype failure =
    CommandFailed "string list"
  | WriteFailed string
  | ReadFailed string
  | TemplateParseFailed
  | InterfaceAddrsFailed
  | HttpGetFailed
  | HttpStatus int
  | ReadBodyFailed
  | DownloadFailed string

datatype ('a, 'x) res =
    Ok 'a "'x world"
  | Abort failure "'x world"

fun world_of :: "('a, 'x) res \<Rightarrow> 'x world" where
  "world_of (Ok a w) = w"
| "world_of (Abort e w) = w"

fun andThen :: "('a, 'x) res \<Rightarrow> ('a \<Rightarrow> 'x world \<Rightarrow> ('b, 'x) res) \<Rightarrow> ('b, 'x) res" where
  "andThen (Ok a w) f = f a w"
| "andThen (Abort e w) f = Abort e w"

text \<open>A deferred call runs when the function returns and when a panic unwinds
  through it.\<close>

fun deferred :: "('x world \<Rightarrow> 'x world) \<Rightarrow> ('a, 'x) res \<Rightarrow> ('a, 'x) res" where
  "deferred f (Ok a w) = Ok a (f w)"
| "deferred f (Abort e w) = Abort e (f w)"

definition exec :: "'x platform \<Rightarrow> string list \<Rightarrow> 'x world \<Rightarrow> (string \<times> bool) \<times> 'x world" where
  "exec p argv w =
     (case shell p argv w of
        ((stdout, stderr, ok), w') \<Rightarrow>
          ((stdout, ok), w\<lparr>files := files w', trace := trace w @ [Exec argv], ext := ext w'\<rparr>))"

text \<open>\<open>exec\<close> is the runner called directly (\<open>shx.OutputE\<close>, \<open>shx.OutputS\<close>,
  \<open>shx.RunS\<close>): the caller gets the standard output and the error; the
  standard error of the command does not reach the script. \<open>mustRun\<close> is a
  command of the builder \<open>must\<close> (\<open>must.Run\<close>, \<open>must.RunE\<close>, \<open>must.RunV\<close>,
  \<open>must.Command(...).Run()\<close>): a failure stops the build.\<close>

definition mustRun :: "'x platform \<Rightarrow> string list \<Rightarrow> 'x world \<Rightarrow> (unit, 'x) res" where
  "mustRun p argv w =
     (case exec p argv w of
        ((out, ok), w') \<Rightarrow> if ok then Ok () w' else Abort (CommandFailed argv) w')"

text \<open>File operations. A write that fails is taken to leave the disk as it was.
  \<open>os.Remove\<close> can fail as well, and then leaves the file; the script discards
  its error (line 187), so \<open>os_Remove\<close> returns the world only.\<close>

definition ioutil_WriteFile :: "'x platform \<Rightarrow> string \<Rightarrow> string \<Rightarrow> 'x world \<Rightarrow> 'x world option" where
  "ioutil_WriteFile p name data w =
     (if writable p name w
      then Some (w\<lparr>files := (files w)(name \<mapsto> data), trace := trace w @ [WriteFile name data]\<rparr>)
      else None)"

definition os_Remove :: "'x platform \<Rightarrow> string \<Rightarrow> 'x world \<Rightarrow> 'x world" where
  "os_Remove p name w =
     (if removable p name w
      then w\<lparr>files := (files w)(name := None), trace := trace w @ [Remove name]\<rparr>
      else w\<lparr>trace := trace w @ [Remove name]\<rparr>)"

definition os_Setenv :: "string \<Rightarrow> string \<Rightarrow> 'x world \<Rightarrow> 'x world" where
  "os_Setenv k v w = w\<lparr>environ := (environ w)(k \<mapsto> v), trace := trace w @ [Setenv k v]\<rparr>"

definition pwd :: "'x world \<Rightarrow> string" where
  "pwd w = cwd w"

definition download :: "'x platform \<Rightarrow> string \<Rightarrow> string \<Rightarrow> string \<Rightarrow> 'x world \<Rightarrow> (unit, 'x) res" where
  "download p url name version w =
     (case DownloadToGopathBin p url name version w of
        (ok, w') \<Rightarrow>
          let w'' = w\<lparr>files := files w', trace := trace w @ [Download url name version], ext := ext w'\<rparr>
          in if ok then Ok () w'' else Abort (DownloadFailed name) w'')"

text \<open>\<open>mg.Deps(f)\<close>: run \<open>f\<close> unless it already ran in this process.\<close>

definition Deps :: "string \<Rightarrow> ('x world \<Rightarrow> (unit, 'x) res) \<Rightarrow> 'x world \<Rightarrow> (unit, 'x) res" where
  "Deps name f w =
     (if name \<in> set (onces w) then Ok () w
      else f (w\<lparr>onces := onces w @ [name]\<rparr>))"

subsection \<open>Installers (lines 223-253)\<close>

definition kindURL :: string where
  "kindURL = ''https://github.com/kubernetes-sigs/kind/releases/download/{{.VERSION}}/kind-{{.GOOS}}-{{.GOARCH}}''"

definition EnsureKind :: "'x platform \<Rightarrow> 'x world \<Rightarrow> (unit, 'x) res" where
  "EnsureKind p w =
     (if IsCommandAvailable p ''kind'' w then Ok () w
      else download p kindURL ''kind'' kindVersion w)"

definition versionURL :: string where
  "versionURL = ''https://storage.googleapis.com/kubernetes-release/release/stable.txt''"

definition kubectlURL :: string where
  "kubectlURL = ''https://storage.googleapis.com/kubernetes-release/release/{{.VERSION}}/bin/{{.GOOS}}/{{.GOARCH}}/kubectl{{.EXT}}''"

definition EnsureKubectl :: "'x platform \<Rightarrow> 'x world \<Rightarrow> (unit, 'x) res" where
  "EnsureKubectl p w =
     (if IsCommandAvailable p ''kubectl'' w then Ok () w
      else (case http_Get p versionURL w of
              None \<Rightarrow> Abort HttpGetFailed w
            | Some versionResp \<Rightarrow>
                (if StatusCode versionResp > 299
                 then Abort (HttpStatus (StatusCode versionResp)) w
                 else (case Body versionResp of
                         None \<Rightarrow> Abort ReadBodyFailed w
                       | Some kubectlVersion \<Rightarrow>
                           download p kubectlURL ''kubectl'' kubectlVersion w))))"

subsection \<open>Registry manager (lines 298-335)\<close>

definition isContainerRunning :: "'x platform \<Rightarrow> string \<Rightarrow> 'x world \<Rightarrow> bool \<times> 'x world" where
  "isContainerRunning p name w =
     (case exec p [''docker'', ''container'', ''inspect'', ''-f'', ''{{.State.Running}}'', name] w of
        ((out, ok), w') \<Rightarrow>
          ((case ParseBool out of Some running \<Rightarrow> running | None \<Rightarrow> False), w'))"

definition containerExists :: "'x platform \<Rightarrow> string \<Rightarrow> 'x world \<Rightarrow> bool \<times> 'x world" where
  "containerExists p name w =
     (case exec p [''docker'', ''inspect'', name] w of
        ((out, ok), w') \<Rightarrow> (ok, w'))"

text \<open>\<open>removeContainer\<close> (lines 329-335) tests the text that \<open>shx.OutputE\<close>
  returns, the standard output of \<open>docker rm -f\<close>, for the literal
  \<open>No such container\<close>; the script binds that text to a variable named
  \<open>stderr\<close>. The comment at line 331 gives the purpose: "Gracefully handle the
  container already being gone".\<close>

definition removeContainer :: "'x platform \<Rightarrow> string \<Rightarrow> 'x world \<Rightarrow> (unit, 'x) res" where
  "removeContainer p name w =
     (case exec p [''docker'', ''rm'', ''-f'', name] w of
        ((stderr, ok), w') \<Rightarrow>
          if \<not> ok \<and> \<not> strings_Contains stderr ''No such container''
          then Abort (CommandFailed [''docker'', ''rm'', ''-f'', name]) w'
          else Ok () w')"

definition StopDockerRegistry :: "'x platform \<Rightarrow> 'x world \<Rightarrow> (unit, 'x) res" where
  "StopDockerRegistry p w =
     (case containerExists p registryContainer w of
        (found, w') \<Rightarrow> if found then removeContainer p registryContainer w' else Ok () w')"

definition StartDockerRegistry :: "'x platform \<Rightarrow> 'x world \<Rightarrow> (unit, 'x) res" where
  "StartDockerRegistry p w =
     (case isContainerRunning p registryContainer w of
        (running, w') \<Rightarrow>
          if running then Ok () w'
          else andThen (StopDockerRegistry p w')
                 (\<lambda>_. mustRun p [''docker'', ''run'', ''-d'', ''-p'', ''5000:5000'', ''--name'',
                                   registryContainer, ''registry:2'']))"

subsection \<open>Network linker (lines 217-221)\<close>

definition isOnDockerNetwork :: "'x platform \<Rightarrow> string \<Rightarrow> string \<Rightarrow> 'x world \<Rightarrow> bool \<times> 'x world" where
  "isOnDockerNetwork p container network w =
     (case exec p [''docker'', ''network'', ''inspect'', network, ''-f'', ''{{.Id}}''] w of
        ((networkId, ok1), w1) \<Rightarrow>
          (case exec p [''docker'', ''inspect'', container, ''-f'',
                        ''{{json .NetworkSettings.Networks}}''] w1 of
             ((networks, ok2), w2) \<Rightarrow> (strings_Contains networks networkId, w2)))"

subsection \<open>Cluster lifecycle manager (lines 108-215)\<close>

definition getClusterConfig :: "'x platform \<Rightarrow> 'x world \<Rightarrow> (string \<times> bool) \<times> 'x world" where
  "getClusterConfig p w = exec p [''kind'', ''get'', ''kubeconfig'', ''--name'', kindClusterName] w"

definition setClusterNamespace :: "'x platform \<Rightarrow> string \<Rightarrow> 'x world \<Rightarrow> (unit, 'x) res" where
  "setClusterNamespace p name w =
     mustRun p [''kubectl'', ''config'', ''set-context'', ''--current'', ''--namespace'', name] w"

text \<open>\<open>useCluster\<close> (lines 125-145). The comparison of the caller's
  \<open>KUBECONFIG\<close> with the canonical path (lines 130-134) only decides whether an
  advisory message is printed.\<close>

definition useCluster :: "'x platform \<Rightarrow> 'x world \<Rightarrow> (bool, 'x) res" where
  "useCluster p w =
     (case getClusterConfig p w of
        ((contents, ok), w1) \<Rightarrow>
          if ok then
            (let currentKubeConfig = filepath_Join p (pwd w1) kubeconfig;
                 w2 = os_Setenv ''KUBECONFIG'' currentKubeConfig w1
             in case ioutil_WriteFile p kubeconfig contents w2 of
                  None \<Rightarrow> Abort (WriteFailed kubeconfig) w2
                | Some w3 \<Rightarrow>
                    andThen (setClusterNamespace p operatorNamespace w3) (\<lambda>_. Ok True))
          else Ok False w1)"

text \<open>The loop of \<open>CreateKindCluster\<close> over the interface addresses
  (lines 160-169): the first \<open>*net.IPNet\<close> that is not a loopback address and
  has an IPv4 form ends the loop; \<open>ipAddress\<close> starts as the empty string.\<close>

fun hostAddress :: "(IP \<Rightarrow> string) \<Rightarrow> Addr list \<Rightarrow> string" where
  "hostAddress other [] = []"
| "hostAddress other (IPNet ip m # addrs) =
     (if \<not> IsLoopback ip \<and> To4 ip \<noteq> None then IP_String other ip
      else hostAddress other addrs)"
| "hostAddress other (OtherAddr a # addrs) = hostAddress other addrs"

definition kindCreateArgs :: "string list" where
  "kindCreateArgs =
     [''kind'', ''create'', ''cluster'', ''--name'', kindClusterName, ''--config'', ''kind.config.yaml'']"

definition networkConnectArgs :: "string list" where
  "networkConnectArgs = [''docker'', ''network'', ''connect'', ''kind'', registryContainer]"

definition applyRegistryArgs :: "string list" where
  "applyRegistryArgs = [''kubectl'', ''apply'', ''-f'', ''hack/local-registry.yaml'']"

text \<open>\<open>CreateKindCluster\<close> from line 171 on, with \<open>ipAddress\<close> as found by the
  loop. The error of \<open>kindCfgTmpl.Execute\<close> (line 184) is assigned and then
  overwritten by line 185, so the flag \<open>executed\<close> is not read. The removal of
  \<open>kind.config.yaml\<close> is deferred once the write has succeeded (line 187).\<close>

definition renderAndCreate :: "'x platform \<Rightarrow> string \<Rightarrow> 'x world \<Rightarrow> (unit, 'x) res" where
  "renderAndCreate p ipAddress w =
     (let w1 = os_Setenv ''KUBECONFIG'' (filepath_Join p (pwd w) kubeconfig) w
      in case files w1 ''hack/kind.config.yaml'' of
           None \<Rightarrow> Abort (ReadFailed ''hack/kind.config.yaml'') w1
         | Some kindCfg \<Rightarrow>
             if \<not> template_Parse p kindCfg then Abort TemplateParseFailed w1
             else
               (case template_Execute p kindCfg ipAddress of
                  (kindCfgContents, executed) \<Rightarrow>
                    (case ioutil_WriteFile p ''kind.config.yaml'' kindCfgContents w1 of
                       None \<Rightarrow> Abort (WriteFailed ''kind.config.yaml'') w1
                     | Some w2 \<Rightarrow>
                         deferred (os_Remove p ''kind.config.yaml'')
                           (andThen (mustRun p kindCreateArgs w2)
                              (\<lambda>_ w3. andThen (mustRun p networkConnectArgs w3)
                                 (\<lambda>_. mustRun p applyRegistryArgs))))))"

definition CreateKindCluster :: "'x platform \<Rightarrow> 'x world \<Rightarrow> (unit, 'x) res" where
  "CreateKindCluster p w =
     andThen (Deps ''EnsureKind'' (EnsureKind p) w)
       (\<lambda>_ w1. case InterfaceAddrs p w1 of
                  None \<Rightarrow> Abort InterfaceAddrsFailed w1
                | Some addrs \<Rightarrow> renderAndCreate p (hostAddress (ip_other p) addrs) w1)"

definition configureCluster :: "'x platform \<Rightarrow> 'x world \<Rightarrow> (unit, 'x) res" where
  "configureCluster p w =
     andThen (Deps ''StartDockerRegistry'' (StartDockerRegistry p) w)
       (\<lambda>_ w1. andThen (setClusterNamespace p operatorNamespace w1)
                  (\<lambda>_. mustRun p [''flux'', ''install'']))"

definition EnsureCluster :: "'x platform \<Rightarrow> 'x world \<Rightarrow> (unit, 'x) res" where
  "EnsureCluster p w =
     andThen (Deps ''EnsureKubectl'' (EnsureKubectl p) w)
       (\<lambda>_ w1. andThen (useCluster p w1)
                  (\<lambda>used w2. if \<not> used
                              then andThen (CreateKindCluster p w2) (\<lambda>_. configureCluster p)
                              else configureCluster p w2))"

definition DeleteKindCluster :: "'x platform \<Rightarrow> 'x world \<Rightarrow> (unit, 'x) res" where
  "DeleteKindCluster p w =
     andThen (Deps ''EnsureKind'' (EnsureKind p) w)
       (\<lambda>_ w1. andThen (mustRun p [''kind'', ''delete'', ''cluster'', ''--name'', kindClusterName] w1)
                  (\<lambda>_ w2. case isOnDockerNetwork p registryContainer ''kind'' w2 of
                             (linked, w3) \<Rightarrow>
                               if linked
                               then mustRun p [''docker'', ''network'', ''disconnect'', ''kind'',
                                               registryContainer] w3
                               else Ok () w3))"

subsection \<open>Notions the properties are stated with\<close>

text \<open>Command lines of the script, named: the credential lookup (line 120), the
  namespace of the current context set to the operator namespace (line 148 as
  called at lines 140 and 201), the deletion of the cluster (line 210), the two
  lookups of \<open>isOnDockerNetwork\<close> for the registry and the network \<open>kind\<close>
  (lines 218-219), the disconnect (line 213) and the start of the registry
  (line 307).\<close>

definition getKubeconfigArgs :: "string list" where
  "getKubeconfigArgs = [''kind'', ''get'', ''kubeconfig'', ''--name'', kindClusterName]"

definition setContextArgs :: "string list" where
  "setContextArgs =
     [''kubectl'', ''config'', ''set-context'', ''--current'', ''--namespace'', operatorNamespace]"

definition kindDeleteArgs :: "string list" where
  "kindDeleteArgs = [''kind'', ''delete'', ''cluster'', ''--name'', kindClusterName]"

definition networkInspectArgs :: "string list" where
  "networkInspectArgs = [''docker'', ''network'', ''inspect'', ''kind'', ''-f'', ''{{.Id}}'']"

definition registryNetworksArgs :: "string list" where
  "registryNetworksArgs =
     [''docker'', ''inspect'', registryContainer, ''-f'', ''{{json .NetworkSettings.Networks}}'']"

definition networkDisconnectArgs :: "string list" where
  "networkDisconnectArgs = [''docker'', ''network'', ''disconnect'', ''kind'', registryContainer]"

definition dockerRunArgs :: "string list" where
  "dockerRunArgs =
     [''docker'', ''run'', ''-d'', ''-p'', ''5000:5000'', ''--name'', registryContainer, ''registry:2'']"

text \<open>The effects a run added to the record of effects. An effect \<open>WriteFile\<close> is
  recorded only for a write that succeeded; \<open>Exec\<close> and \<open>Remove\<close> are recorded
  for every command run and every removal attempted, whether it succeeded or
  not.\<close>

definition new_events :: "'x world \<Rightarrow> 'x world \<Rightarrow> event list" where
  "new_events w w' = drop (length (trace w)) (trace w')"

text \<open>\<open>only P w w'\<close>: the record of effects of \<open>w'\<close> continues that of \<open>w\<close>, with
  effects that all satisfy \<open>P\<close>.\<close>

definition only :: "(event \<Rightarrow> bool) \<Rightarrow> 'x world \<Rightarrow> 'x world \<Rightarrow> bool" where
  "only P w w' = (\<exists>es. trace w' = trace w @ es \<and> (\<forall>e\<in>set es. P e))"

text \<open>The effects only \<open>CreateKindCluster\<close> performs: installing kind, writing and
  removing the rendered configuration, creating the cluster, connecting the
  registry to the cluster network, applying the registry manifest.\<close>

fun creation_event :: "event \<Rightarrow> bool" where
  "creation_event (Exec argv) =
     (argv = kindCreateArgs \<or> argv = networkConnectArgs \<or> argv = applyRegistryArgs)"
| "creation_event (WriteFile name d) = (name = ''kind.config.yaml'')"
| "creation_event (Remove name) = (name = ''kind.config.yaml'')"
| "creation_event (Download url name version) = (name = ''kind'')"
| "creation_event (Setenv k v) = False"

text \<open>The effect only the reuse branch of \<open>useCluster\<close> performs: writing the
  credential file.\<close>

fun reuse_event :: "event \<Rightarrow> bool" where
  "reuse_event (WriteFile name d) = (name = kubeconfig)"
| "reuse_event (Exec argv) = False"
| "reuse_event (Remove name) = False"
| "reuse_event (Setenv k v) = False"
| "reuse_event (Download url name version) = False"

text \<open>How many times a run started the registry container.\<close>

definition container_starts :: "event list \<Rightarrow> nat" where
  "container_starts es = length (filter (\<lambda>e. e = Exec dockerRunArgs) es)"

text \<open>The host address in the words of the specification: the first address, in
  the reported order, that is not a loopback address and is IPv4 (an IP network
  whose address has a four-byte form), written in dotted decimal; the empty
  string when there is none. To be compared with the loop \<open>hostAddress\<close>.\<close>

fun eligible :: "Addr \<Rightarrow> bool" where
  "eligible (IPNet ip m) = (\<not> IsLoopback ip \<and> To4 ip \<noteq> None)"
| "eligible (OtherAddr a) = False"

fun dotted :: "Addr \<Rightarrow> string" where
  "dotted (IPNet ip m) =
     (case To4 ip of
        Some ip4 \<Rightarrow> ubtoa (ip4 ! 0) @ ''.'' @ ubtoa (ip4 ! 1) @ ''.'' @ ubtoa (ip4 ! 2) @ ''.'' @ ubtoa (ip4 ! 3)
      | None \<Rightarrow> [])"
| "dotted (OtherAddr a) = []"

definition spec_hostAddress :: "Addr list \<Rightarrow> string" where
  "spec_hostAddress addrs =
     (case List.find eligible addrs of None \<Rightarrow> [] | Some a \<Rightarrow> dotted a)"

text \<open>The link test in the words of the specification: structured membership of
  the network identifier among the networks the container is attached to, read
  off the serialized network settings as the values under the key
  \<open>NetworkID\<close>. To be compared with the substring test of
  \<open>isOnDockerNetwork\<close>.\<close>

definition quote :: char where
  "quote = CHR 0x22"

definition networkIdKey :: string where
  "networkIdKey = quote # ''NetworkID'' @ [quote, CHR '':'', quote]"

fun untilQuote :: "string \<Rightarrow> string" where
  "untilQuote [] = []"
| "untilQuote (c # cs) = (if c = quote then [] else c # untilQuote cs)"

fun networkIDs :: "string \<Rightarrow> string list" where
  "networkIDs [] = []"
| "networkIDs (c # cs) =
     (if hasPrefix (c # cs) networkIdKey
      then untilQuote (drop (length networkIdKey) (c # cs)) # networkIDs cs
      else networkIDs cs)"

definition spec_isLinked :: "string \<Rightarrow> string \<Rightarrow> bool" where
  "spec_isLinked networkId networks = (networkId \<in> set (networkIDs networks))"

text \<open>Network settings as docker serializes them, for a container attached to
  one network whose identifier is \<open>abcdef\<close>.\<close>

definition sampleNetworks :: string where
  "sampleNetworks =
     ''{\"kind\":{\"IPAMConfig\":null,\"NetworkID\":\"abcdef\",\"EndpointID\":\"0123\"}}''"

subsection \<open>Scripted platforms for concrete runs\<close>

text \<open>A platform whose commands answer from a table of standard output and
  success (a command not in the table fails with no output) and leave the world
  as it is; every tool is installed, every file can be written and removed, the
  template engine appends the address to the template text.\<close>

definition respond :: "(string list \<times> string \<times> bool) list \<Rightarrow> string list \<Rightarrow> string \<times> bool" where
  "respond tbl argv = (case map_of tbl argv of Some r \<Rightarrow> r | None \<Rightarrow> ([], False))"

definition scripted :: "(string list \<times> string \<times> bool) list \<Rightarrow> Addr list \<Rightarrow> bool \<Rightarrow> unit platform" where
  "scripted tbl addrs rendered =
     \<lparr> shell = (\<lambda>argv w. ((fst (respond tbl argv), [], snd (respond tbl argv)), w)),
       writable = (\<lambda>name w. True),
       removable = (\<lambda>name w. True),
       InterfaceAddrs = (\<lambda>w. Some addrs),
       IsCommandAvailable = (\<lambda>name w. True),
       DownloadToGopathBin = (\<lambda>url name version w. (True, w)),
       http_Get = (\<lambda>url w. None),
       template_Parse = (\<lambda>t. True),
       template_Execute = (\<lambda>t a. (t @ a, rendered)),
       filepath_Join = (\<lambda>a b. a @ ''/'' @ b),
       ip_other = (\<lambda>ip. []) \<rparr>"

definition world0 :: "'x \<Rightarrow> 'x world" where
  "world0 x =
     \<lparr> files = (\<lambda>name. if name = ''hack/kind.config.yaml'' then Some ''address: '' else None),
       environ = (\<lambda>k. None),
       cwd = ''/src'',
       onces = [],
       trace = [],
       ext = x \<rparr>"

text \<open>The same platform on a disk where files can be written but not removed
  (a file that is writable in a directory that is not).\<close>

definition stickyDisk :: "(string list \<times> string \<times> bool) list \<Rightarrow> Addr list \<Rightarrow> unit platform" where
  "stickyDisk tbl addrs = (scripted tbl addrs True)\<lparr>removable := (\<lambda>name w. False)\<rparr>"

text \<open>A docker daemon that tracks what exists: \<open>ext\<close> is the pair of the names of
  the containers and of the names of the other objects (images, volumes,
  networks). \<open>docker inspect\<close> finds an object of either kind. \<open>docker rm -f\<close>
  removes the container named and prints its name; for a name that is no
  container it fails, prints nothing and complains on standard error.\<close>

definition dockerShell ::
  "string list \<Rightarrow> (string list \<times> string list) world
     \<Rightarrow> (string \<times> string \<times> bool) \<times> (string list \<times> string list) world" where
  "dockerShell argv w =
     (if length argv = 4 \<and> take 3 argv = [''docker'', ''rm'', ''-f'']
      then (if argv ! 3 \<in> set (fst (ext w))
            then ((argv ! 3, [], True), w\<lparr>ext := (removeAll (argv ! 3) (fst (ext w)), snd (ext w))\<rparr>)
            else (([], ''Error: No such container: '' @ argv ! 3, False), w))
      else if length argv = 3 \<and> take 2 argv = [''docker'', ''inspect'']
      then (([], [], argv ! 2 \<in> set (fst (ext w)) \<or> argv ! 2 \<in> set (snd (ext w))), w)
      else (([], [], False), w))"

definition dockerHost :: "(string list \<times> string list) platform" where
  "dockerHost =
     \<lparr> shell = dockerShell,
       writable = (\<lambda>name w. True),
       removable = (\<lambda>name w. True),
       InterfaceAddrs = (\<lambda>w. Some []),
       IsCommandAvailable = (\<lambda>name w. True),
       DownloadToGopathBin = (\<lambda>url name version w. (True, w)),
       http_Get = (\<lambda>url w. None),
       template_Parse = (\<lambda>t. True),
       template_Execute = (\<lambda>t a. (t @ a, True)),
       filepath_Join = (\<lambda>a b. a @ ''/'' @ b),
       ip_other = (\<lambda>ip. []) \<rparr>"

section \<open>Properties\<close>

subsection \<open>Basic facts about the primitives\<close>

lemma exec_trace [simp]: "trace (snd (exec p argv w)) = trace w @ [Exec argv]"
  by (simp add: exec_def split: prod.splits)

lemma exec_frame [simp]:
  "environ (snd (exec p argv w)) = environ w"
  "cwd (snd (exec p argv w)) = cwd w"
  "onces (snd (exec p argv w)) = onces w"
  by (simp_all add: exec_def split: prod.splits)

lemma exec_eqD:
  "exec p argv w = (r, w') \<Longrightarrow> trace w' = trace w @ [Exec argv] \<and> environ w' = environ w \<and> cwd w' = cwd w \<and> onces w' = onces w"
  by (auto simp: exec_def split: prod.splits)

lemma mustRun_trace [simp]: "trace (world_of (mustRun p argv w)) = trace w @ [Exec argv]"
  by (auto simp: mustRun_def dest: exec_eqD split: prod.splits)

lemma new_events_append [simp]: "trace w' = trace w @ es \<Longrightarrow> new_events w w' = es"
  by (simp add: new_events_def)

lemma ParseBool_True: "(ParseBool s = Some True) = (s \<in> {''1'', ''t'', ''T'', ''true'', ''TRUE'', ''True''})"
  by (simp add: ParseBool_def)

text \<open>C10, as amended: \<open>isContainerRunning\<close> returns a boolean for every
  container name and world; it has no failure branch, because both errors (of
  the inspect command and of \<open>ParseBool\<close>) are discarded. The result is true
  exactly when the standard output of the inspect command is one of the literals
  \<open>ParseBool\<close> reads as true, whatever the exit status of the command. So it is
  false when the output does not parse, in particular when the command (failed
  or not) printed nothing.\<close>

theorem isContainerRunning_by_output:
  "\<exists>out ok w'.
     exec p [''docker'', ''container'', ''inspect'', ''-f'', ''{{.State.Running}}'', name] w = ((out, ok), w')
     \<and> isContainerRunning p name w = (ParseBool out = Some True, w')
     \<and> (ParseBool out = None \<longrightarrow> \<not> fst (isContainerRunning p name w))
     \<and> (out = [] \<longrightarrow> \<not> fst (isContainerRunning p name w))
     \<and> (fst (isContainerRunning p name w) \<longrightarrow> out \<in> {''1'', ''t'', ''T'', ''true'', ''TRUE'', ''True''})"
proof -
  obtain out ok w' where e:
    "exec p [''docker'', ''container'', ''inspect'', ''-f'', ''{{.State.Running}}'', name] w = ((out, ok), w')"
    by (metis surj_pair)
  have r: "isContainerRunning p name w = (ParseBool out = Some True, w')"
    using e by (cases "ParseBool out") (auto simp: isContainerRunning_def)
  have c1: "ParseBool out = None \<longrightarrow> ParseBool out \<noteq> Some True"
    by simp
  have c2: "out = [] \<longrightarrow> ParseBool out \<noteq> Some True"
    by (simp add: ParseBool_def)
  have c3: "ParseBool out = Some True \<longrightarrow> out \<in> {''1'', ''t'', ''T'', ''true'', ''TRUE'', ''True''}"
    using ParseBool_True [of out] by blast
  show ?thesis
    apply (rule exI [of _ out], rule exI [of _ ok], rule exI [of _ w'])
    using e r c1 c2 c3 by simp
qed

theorem isContainerRunning_by_output_witness:
  "\<not> fst (isContainerRunning (scripted [] [] True) registryContainer (world0 ()))
   \<and> fst (isContainerRunning
        (scripted [([''docker'', ''container'', ''inspect'', ''-f'', ''{{.State.Running}}'', registryContainer], ''true'', True)] [] True)
        registryContainer (world0 ()))"
proof -
  let ?argv = "[''docker'', ''container'', ''inspect'', ''-f'', ''{{.State.Running}}'', registryContainer]"
  have a: "fst (exec (scripted [] [] True) ?argv (world0 ())) = ([], False)"
    by (simp add: exec_def scripted_def respond_def)
  have b: "fst (exec (scripted [(?argv, ''true'', True)] [] True) ?argv (world0 ())) = (''true'', True)"
    by (simp add: exec_def scripted_def respond_def)
  from isContainerRunning_by_output [of "scripted [] [] True" registryContainer "world0 ()"] a
  have 1: "\<not> fst (isContainerRunning (scripted [] [] True) registryContainer (world0 ()))"
    by auto
  from isContainerRunning_by_output [of "scripted [(?argv, ''true'', True)] [] True" registryContainer "world0 ()"] b
  have 2: "fst (isContainerRunning (scripted [(?argv, ''true'', True)] [] True) registryContainer (world0 ()))"
    by (auto simp: ParseBool_def)
  from 1 2 show ?thesis by simp
qed

text \<open>C10, as stated, fails: an inspect command that fails after printing
  \<open>true\<close> makes \<open>isContainerRunning\<close> return true, because the error of the
  command is never read.\<close>

theorem isContainerRunning_true_on_failed_inspect:
  "fst (exec
         (scripted [([''docker'', ''container'', ''inspect'', ''-f'', ''{{.State.Running}}'', registryContainer], ''true'', False)] [] True)
         [''docker'', ''container'', ''inspect'', ''-f'', ''{{.State.Running}}'', registryContainer]
         (world0 ())) = (''true'', False)
   \<and> fst (isContainerRunning
        (scripted [([''docker'', ''container'', ''inspect'', ''-f'', ''{{.State.Running}}'', registryContainer], ''true'', False)] [] True)
        registryContainer (world0 ()))"
  by (simp add: isContainerRunning_def exec_def scripted_def respond_def ParseBool_def)

subsection \<open>The registry\<close>

lemma isContainerRunning_trace:
  "isContainerRunning p name w = (b, w') \<Longrightarrow>
     trace w' = trace w @ [Exec [''docker'', ''container'', ''inspect'', ''-f'', ''{{.State.Running}}'', name]]"
  by (auto simp: isContainerRunning_def dest: exec_eqD split: prod.splits)

text \<open>C6: when the registry container reports that it is running,
  \<open>StartDockerRegistry\<close> returns right after the probe: the probe is the only
  command it issues. Called again while the registry still reports running, it
  does the same, so neither call issues a \<open>docker run\<close>.\<close>

theorem StartDockerRegistry_idempotent:
  assumes "isContainerRunning p registryContainer w = (True, w1)"
      and "isContainerRunning p registryContainer w1 = (True, w2)"
  shows "StartDockerRegistry p w = Ok () w1
       \<and> new_events w w1 = [Exec [''docker'', ''container'', ''inspect'', ''-f'', ''{{.State.Running}}'', registryContainer]]
       \<and> StartDockerRegistry p w1 = Ok () w2
       \<and> new_events w1 w2 = [Exec [''docker'', ''container'', ''inspect'', ''-f'', ''{{.State.Running}}'', registryContainer]]
       \<and> container_starts (new_events w1 w2) = 0
       \<and> container_starts (new_events w w2) = 0"
proof -
  let ?probe = "Exec [''docker'', ''container'', ''inspect'', ''-f'', ''{{.State.Running}}'', registryContainer]"
  have t1: "trace w1 = trace w @ [?probe]"
    using assms(1) by (rule isContainerRunning_trace)
  have t2: "trace w2 = trace w1 @ [?probe]"
    using assms(2) by (rule isContainerRunning_trace)
  have t12: "trace w2 = trace w @ [?probe, ?probe]"
    using t1 t2 by simp
  have n: "?probe \<noteq> Exec dockerRunArgs"
    by (simp add: dockerRunArgs_def)
  have s1: "StartDockerRegistry p w = Ok () w1"
    using assms(1) by (simp add: StartDockerRegistry_def)
  have s2: "StartDockerRegistry p w1 = Ok () w2"
    using assms(2) by (simp add: StartDockerRegistry_def)
  have c1: "container_starts (new_events w1 w2) = 0"
    using n by (simp add: new_events_append [OF t2] container_starts_def)
  have c2: "container_starts (new_events w w2) = 0"
    using n by (simp add: new_events_append [OF t12] container_starts_def)
  show ?thesis
    using s1 s2 c1 c2 new_events_append [OF t1] new_events_append [OF t2] by simp
qed

lemma isContainerRunning_scripted:
  "isContainerRunning (scripted [([''docker'', ''container'', ''inspect'', ''-f'', ''{{.State.Running}}'', registryContainer], ''true'', True)] [] True)
     registryContainer w
   = (True, w\<lparr>trace := trace w @ [Exec [''docker'', ''container'', ''inspect'', ''-f'', ''{{.State.Running}}'', registryContainer]]\<rparr>)"
  by (simp add: isContainerRunning_def exec_def scripted_def respond_def ParseBool_def)

theorem StartDockerRegistry_idempotent_witness:
  "container_starts
     (trace (world_of (andThen
        (StartDockerRegistry (scripted [([''docker'', ''container'', ''inspect'', ''-f'', ''{{.State.Running}}'', registryContainer], ''true'', True)] [] True) (world0 ()))
        (\<lambda>_. StartDockerRegistry (scripted [([''docker'', ''container'', ''inspect'', ''-f'', ''{{.State.Running}}'', registryContainer], ''true'', True)] [] True))))) = 0"
proof -
  let ?argv = "[''docker'', ''container'', ''inspect'', ''-f'', ''{{.State.Running}}'', registryContainer]"
  let ?p = "scripted [(?argv, ''true'', True)] [] True"
  let ?w1 = "(world0 ())\<lparr>trace := trace (world0 ()) @ [Exec ?argv]\<rparr>"
  let ?w2 = "?w1\<lparr>trace := trace ?w1 @ [Exec ?argv]\<rparr>"
  have h1: "isContainerRunning ?p registryContainer (world0 ()) = (True, ?w1)"
    by (rule isContainerRunning_scripted)
  have h2: "isContainerRunning ?p registryContainer ?w1 = (True, ?w2)"
    by (rule isContainerRunning_scripted)
  note r = StartDockerRegistry_idempotent [OF h1 h2]
  have e: "trace (world0 ()) = []"
    by (simp add: world0_def)
  have "new_events (world0 ()) ?w2 = trace ?w2"
    by (simp add: new_events_def e)
  with r show ?thesis by simp
qed

lemma removeContainer_eq:
  "exec p [''docker'', ''rm'', ''-f'', name] w = ((out, ok), w') \<Longrightarrow>
   removeContainer p name w =
     (if ok \<or> strings_Contains out ''No such container'' then Ok () w'
      else Abort (CommandFailed [''docker'', ''rm'', ''-f'', name]) w')"
  by (simp add: removeContainer_def)

text \<open>The outcomes of \<open>StopDockerRegistry\<close>, for any platform: with no object
  found by \<open>docker inspect\<close> it returns after that probe alone; otherwise a
  removal that succeeded, or that failed with \<open>No such container\<close> in its
  standard output, counts as done, and any other failed removal stops the
  build.\<close>

lemma StopDockerRegistry_outcomes:
  assumes probe: "containerExists p registryContainer w = (found, w1)"
      and rm: "exec p [''docker'', ''rm'', ''-f'', registryContainer] w1 = ((out, ok), w2)"
  shows "(\<not> found \<longrightarrow> StopDockerRegistry p w = Ok () w1
             \<and> new_events w w1 = [Exec [''docker'', ''inspect'', registryContainer]])
       \<and> (found \<and> (ok \<or> strings_Contains out ''No such container'') \<longrightarrow>
             StopDockerRegistry p w = Ok () w2)
       \<and> (found \<and> \<not> ok \<and> \<not> strings_Contains out ''No such container'' \<longrightarrow>
             StopDockerRegistry p w = Abort (CommandFailed [''docker'', ''rm'', ''-f'', registryContainer]) w2)"
proof -
  have t: "trace w1 = trace w @ [Exec [''docker'', ''inspect'', registryContainer]]"
    using probe by (auto simp: containerExists_def dest: exec_eqD split: prod.splits)
  have a: "\<not> found \<longrightarrow> StopDockerRegistry p w = Ok () w1
             \<and> new_events w w1 = [Exec [''docker'', ''inspect'', registryContainer]]"
    using probe t by (simp add: StopDockerRegistry_def new_events_def)
  have s: "found \<longrightarrow> StopDockerRegistry p w = removeContainer p registryContainer w1"
    using probe by (simp add: StopDockerRegistry_def)
  note r = removeContainer_eq [OF rm]
  have b: "found \<and> (ok \<or> strings_Contains out ''No such container'') \<longrightarrow>
             StopDockerRegistry p w = Ok () w2"
    using s r by auto
  have c: "found \<and> \<not> ok \<and> \<not> strings_Contains out ''No such container'' \<longrightarrow>
             StopDockerRegistry p w = Abort (CommandFailed [''docker'', ''rm'', ''-f'', registryContainer]) w2"
    using s r by auto
  from a b c show ?thesis by blast
qed

text \<open>A failed removal that printed nothing to standard output stops the build,
  whatever it wrote to standard error.\<close>

lemma removeContainer_silent_failure:
  "shell p [''docker'', ''rm'', ''-f'', name] w = (([], err, False), w') \<Longrightarrow>
   \<exists>w''. removeContainer p name w = Abort (CommandFailed [''docker'', ''rm'', ''-f'', name]) w''"
  by (simp add: removeContainer_def exec_def)

lemma dockerHost_exec:
  "exec dockerHost argv w =
     (case dockerShell argv w of
        ((out, err, ok), w') \<Rightarrow> ((out, ok), w\<lparr>trace := trace w @ [Exec argv], ext := ext w'\<rparr>))"
  by (simp add: exec_def dockerHost_def dockerShell_def)

text \<open>The paths that work on the docker daemon of \<open>dockerHost\<close>: with nothing
  named \<open>registry\<close> the call returns after the probe; an existing container is
  removed.\<close>

lemma StopDockerRegistry_dockerHost:
  "StopDockerRegistry dockerHost (world0 ([], []))
     = Ok () ((world0 ([], []))\<lparr>trace := [Exec [''docker'', ''inspect'', registryContainer]]\<rparr>)"
  "StopDockerRegistry dockerHost (world0 ([registryContainer], []))
     = Ok () ((world0 ([], []))\<lparr>trace := [Exec [''docker'', ''inspect'', registryContainer],
                                            Exec [''docker'', ''rm'', ''-f'', registryContainer]]\<rparr>)"
  by (simp_all add: StopDockerRegistry_def containerExists_def removeContainer_def dockerHost_exec
        dockerShell_def world0_def)

text \<open>C7: the removal is meant to tolerate a container that is already gone
  (comment at line 331). Here \<open>docker inspect registry\<close> finds an object named
  \<open>registry\<close> that is not a container, so \<open>docker rm -f registry\<close> fails and
  reports \<open>Error: No such container: registry\<close> on standard error. The script
  looks for that text in the standard output, which is empty, and stops the
  build on the error it meant to pass over.\<close>

theorem StopDockerRegistry_aborts_on_missing_container:
  "shell dockerHost [''docker'', ''rm'', ''-f'', registryContainer]
       ((world0 ([], [registryContainer]))\<lparr>trace := [Exec [''docker'', ''inspect'', registryContainer]]\<rparr>)
     = (([], ''Error: No such container: registry'', False),
        (world0 ([], [registryContainer]))\<lparr>trace := [Exec [''docker'', ''inspect'', registryContainer]]\<rparr>)
   \<and> StopDockerRegistry dockerHost (world0 ([], [registryContainer]))
     = Abort (CommandFailed [''docker'', ''rm'', ''-f'', registryContainer])
         ((world0 ([], [registryContainer]))
            \<lparr>trace := [Exec [''docker'', ''inspect'', registryContainer],
                       Exec [''docker'', ''rm'', ''-f'', registryContainer]]\<rparr>)"
proof -
  let ?w1 = "(world0 ([], [registryContainer]))\<lparr>trace := [Exec [''docker'', ''inspect'', registryContainer]]\<rparr>"
  have 1: "shell dockerHost [''docker'', ''rm'', ''-f'', registryContainer] ?w1
             = (([], ''Error: No such container: registry'', False), ?w1)"
    by (simp add: dockerHost_def dockerShell_def world0_def registryContainer_def)
  have 2: "StopDockerRegistry dockerHost (world0 ([], [registryContainer]))
     = Abort (CommandFailed [''docker'', ''rm'', ''-f'', registryContainer])
         ((world0 ([], [registryContainer]))
            \<lparr>trace := [Exec [''docker'', ''inspect'', registryContainer],
                       Exec [''docker'', ''rm'', ''-f'', registryContainer]]\<rparr>)"
    by (simp add: StopDockerRegistry_def containerExists_def removeContainer_def dockerHost_exec
          dockerShell_def world0_def)
  from 1 2 show ?thesis ..
qed

subsection \<open>The scripted platforms\<close>

lemma scripted_simps [simp]:
  "shell (scripted tbl addrs b) = (\<lambda>argv w. ((fst (respond tbl argv), [], snd (respond tbl argv)), w))"
  "writable (scripted tbl addrs b) = (\<lambda>name w. True)"
  "removable (scripted tbl addrs b) = (\<lambda>name w. True)"
  "InterfaceAddrs (scripted tbl addrs b) = (\<lambda>w. Some addrs)"
  "IsCommandAvailable (scripted tbl addrs b) = (\<lambda>name w. True)"
  "template_Parse (scripted tbl addrs b) = (\<lambda>t. True)"
  "template_Execute (scripted tbl addrs b) = (\<lambda>t a. (t @ a, b))"
  "filepath_Join (scripted tbl addrs b) = (\<lambda>a b. a @ ''/'' @ b)"
  "ip_other (scripted tbl addrs b) = (\<lambda>ip. [])"
  by (simp_all add: scripted_def)

lemma exec_scripted:
  "exec (scripted tbl addrs b) argv w = (respond tbl argv, w\<lparr>trace := trace w @ [Exec argv]\<rparr>)"
  by (simp add: exec_def)

lemma mustRun_scripted:
  "mustRun (scripted tbl addrs b) argv w =
     (if snd (respond tbl argv) then Ok () (w\<lparr>trace := trace w @ [Exec argv]\<rparr>)
      else Abort (CommandFailed argv) (w\<lparr>trace := trace w @ [Exec argv]\<rparr>))"
  by (simp add: mustRun_def exec_scripted split: prod.splits)

lemma Deps_EnsureKind_scripted:
  "Deps ''EnsureKind'' (EnsureKind (scripted tbl addrs b)) (world0 ()) = Ok () ((world0 ())\<lparr>onces := [''EnsureKind'']\<rparr>)"
  by (simp add: Deps_def EnsureKind_def world0_def)

lemma respond_hit: "respond [(argv, r)] argv = r"
  by (simp add: respond_def)

lemma respond_miss: "argv \<noteq> a \<Longrightarrow> respond [(a, r)] argv = ([], False)"
  by (simp add: respond_def)

lemma respond_Cons: "respond ((a, r) # tbl) argv = (if argv = a then r else respond tbl argv)"
  by (simp add: respond_def)

lemma create_args_distinct:
  "networkConnectArgs \<noteq> kindCreateArgs" "applyRegistryArgs \<noteq> kindCreateArgs"
  "applyRegistryArgs \<noteq> networkConnectArgs"
  by (simp_all add: networkConnectArgs_def kindCreateArgs_def applyRegistryArgs_def)

subsection \<open>Creating the cluster\<close>

lemma mustRun_cases:
  obtains w' where "mustRun p argv w = Ok () w'" "trace w' = trace w @ [Exec argv]"
  | w' where "mustRun p argv w = Abort (CommandFailed argv) w'" "trace w' = trace w @ [Exec argv]"
proof -
  obtain out ok w' where e: "exec p argv w = ((out, ok), w')"
    by (metis surj_pair)
  then have t: "trace w' = trace w @ [Exec argv]"
    by (simp add: exec_eqD)
  show thesis
  proof (cases ok)
    case True
    with e have "mustRun p argv w = Ok () w'" by (simp add: mustRun_def)
    with t that(1) show thesis by blast
  next
    case False
    with e have "mustRun p argv w = Abort (CommandFailed argv) w'" by (simp add: mustRun_def)
    with t that(2) show thesis by blast
  qed
qed

lemma three_commands_trace:
  "\<exists>es. trace (world_of (andThen (mustRun p a w)
            (\<lambda>_ w3. andThen (mustRun p b w3) (\<lambda>_. mustRun p c)))) = trace w @ Exec a # es"
proof (cases rule: mustRun_cases [of p a w])
  case (1 w3)
  then show ?thesis
    by (cases rule: mustRun_cases [of p b w3]) auto
next
  case (2 w3)
  then show ?thesis by simp
qed

lemma os_Setenv_simps [simp]:
  "trace (os_Setenv k v w) = trace w @ [Setenv k v]"
  "files (os_Setenv k v w) = files w"
  "cwd (os_Setenv k v w) = cwd w"
  "onces (os_Setenv k v w) = onces w"
  by (simp_all add: os_Setenv_def)

lemma os_Remove_simps [simp]:
  "trace (os_Remove p name w) = trace w @ [Remove name]"
  "removable p name w \<Longrightarrow> files (os_Remove p name w) name = None"
  "\<not> removable p name w \<Longrightarrow> files (os_Remove p name w) = files w"
  by (simp_all add: os_Remove_def)

lemma world_of_deferred [simp]: "world_of (deferred f r) = f (world_of r)"
  by (cases r) simp_all

lemma ioutil_WriteFile_Some:
  "ioutil_WriteFile p name d w = Some w' \<Longrightarrow>
     trace w' = trace w @ [WriteFile name d] \<and> files w' name = Some d"
  by (auto simp: ioutil_WriteFile_def split: if_splits)

text \<open>The ways \<open>renderAndCreate\<close> ends: before the rendered file exists, or
  with the deferred removal around the three commands.\<close>

lemma renderAndCreate_cases:
  obtains (early) e where
      "renderAndCreate p ip w = Abort e (os_Setenv ''KUBECONFIG'' (filepath_Join p (pwd w) kubeconfig) w)"
      "e = ReadFailed ''hack/kind.config.yaml'' \<or> e = TemplateParseFailed \<or> e = WriteFailed ''kind.config.yaml''"
  | (written) kindCfg w2 where
      "files w ''hack/kind.config.yaml'' = Some kindCfg"
      "ioutil_WriteFile p ''kind.config.yaml'' (fst (template_Execute p kindCfg ip))
         (os_Setenv ''KUBECONFIG'' (filepath_Join p (pwd w) kubeconfig) w) = Some w2"
      "renderAndCreate p ip w =
         deferred (os_Remove p ''kind.config.yaml'')
           (andThen (mustRun p kindCreateArgs w2)
              (\<lambda>_ w3. andThen (mustRun p networkConnectArgs w3) (\<lambda>_. mustRun p applyRegistryArgs)))"
proof -
  let ?w1 = "os_Setenv ''KUBECONFIG'' (filepath_Join p (pwd w) kubeconfig) w"
  show thesis
  proof (cases "files w ''hack/kind.config.yaml''")
    case None
    then have "renderAndCreate p ip w = Abort (ReadFailed ''hack/kind.config.yaml'') ?w1"
      by (simp add: renderAndCreate_def Let_def)
    then show thesis using early by blast
  next
    case (Some kindCfg)
    show thesis
    proof (cases "template_Parse p kindCfg")
      case False
      with Some have "renderAndCreate p ip w = Abort TemplateParseFailed ?w1"
        by (simp add: renderAndCreate_def Let_def)
      then show thesis using early by blast
    next
      case True
      obtain c ex where x: "template_Execute p kindCfg ip = (c, ex)"
        by (metis surj_pair)
      show thesis
      proof (cases "ioutil_WriteFile p ''kind.config.yaml'' c ?w1")
        case None
        with Some True x have "renderAndCreate p ip w = Abort (WriteFailed ''kind.config.yaml'') ?w1"
          by (simp add: renderAndCreate_def Let_def)
        then show thesis using early by blast
      next
        case (Some w2)
        with \<open>files w ''hack/kind.config.yaml'' = Some kindCfg\<close> True x
        have "renderAndCreate p ip w =
           deferred (os_Remove p ''kind.config.yaml'')
             (andThen (mustRun p kindCreateArgs w2)
                (\<lambda>_ w3. andThen (mustRun p networkConnectArgs w3) (\<lambda>_. mustRun p applyRegistryArgs)))"
          by (simp add: renderAndCreate_def Let_def)
        moreover have "ioutil_WriteFile p ''kind.config.yaml'' (fst (template_Execute p kindCfg ip)) ?w1 = Some w2"
          using Some x by simp
        ultimately show thesis
          using written \<open>files w ''hack/kind.config.yaml'' = Some kindCfg\<close> by blast
      qed
    qed
  qed
qed


lemma download_cases:
  obtains w' where "download p url name version w = Ok () w'"
                   "trace w' = trace w @ [Download url name version]" "onces w' = onces w"
  | w' where "download p url name version w = Abort (DownloadFailed name) w'"
             "trace w' = trace w @ [Download url name version]" "onces w' = onces w"
proof -
  obtain ok w1 where d: "DownloadToGopathBin p url name version w = (ok, w1)"
    by (metis surj_pair)
  let ?w' = "w\<lparr>files := files w1, trace := trace w @ [Download url name version], ext := ext w1\<rparr>"
  show thesis
  proof (cases ok)
    case True
    with d have "download p url name version w = Ok () ?w'"
      by (simp add: download_def)
    with that(1) [of ?w'] show thesis by simp
  next
    case False
    with d have "download p url name version w = Abort (DownloadFailed name) ?w'"
      by (simp add: download_def)
    with that(2) [of ?w'] show thesis by simp
  qed
qed

lemma Deps_EnsureKind_cases:
  obtains (ready) w1 ds where
      "Deps ''EnsureKind'' (EnsureKind p) w = Ok () w1" "trace w1 = trace w @ ds"
      "set ds \<subseteq> {Download kindURL ''kind'' kindVersion}"
  | (failed) w1 where
      "Deps ''EnsureKind'' (EnsureKind p) w = Abort (DownloadFailed ''kind'') w1"
      "trace w1 = trace w @ [Download kindURL ''kind'' kindVersion]"
proof (cases "''EnsureKind'' \<in> set (onces w)")
  case True
  then have "Deps ''EnsureKind'' (EnsureKind p) w = Ok () w"
    by (simp add: Deps_def)
  with ready [of w "[]"] show thesis by simp
next
  case False
  let ?w0 = "w\<lparr>onces := onces w @ [''EnsureKind'']\<rparr>"
  from False have d: "Deps ''EnsureKind'' (EnsureKind p) w = EnsureKind p ?w0"
    by (simp add: Deps_def)
  show thesis
  proof (cases "IsCommandAvailable p ''kind'' ?w0")
    case True
    with d have "Deps ''EnsureKind'' (EnsureKind p) w = Ok () ?w0"
      by (simp add: EnsureKind_def)
    with ready [of ?w0 "[]"] show thesis by simp
  next
    case False
    with d have e: "Deps ''EnsureKind'' (EnsureKind p) w = download p kindURL ''kind'' kindVersion ?w0"
      by (simp add: EnsureKind_def)
    show thesis
    proof (cases rule: download_cases [of p kindURL "''kind''" kindVersion ?w0])
      case (1 w')
      with e ready [of w' "[Download kindURL ''kind'' kindVersion]"] show thesis by simp
    next
      case (2 w')
      with e failed [of w'] show thesis by simp
    qed
  qed
qed

lemma renderAndCreate_cleanup:
  "((\<exists>c. WriteFile ''kind.config.yaml'' c \<in> set (new_events w (world_of (renderAndCreate p ip w)))) \<longrightarrow>
       (\<exists>w3. world_of (renderAndCreate p ip w) = os_Remove p ''kind.config.yaml'' w3
          \<and> last (trace (world_of (renderAndCreate p ip w))) = Remove ''kind.config.yaml''
          \<and> (removable p ''kind.config.yaml'' w3 \<longrightarrow>
                files (world_of (renderAndCreate p ip w)) ''kind.config.yaml'' = None)
          \<and> (\<not> removable p ''kind.config.yaml'' w3 \<longrightarrow>
                files (world_of (renderAndCreate p ip w)) ''kind.config.yaml'' = files w3 ''kind.config.yaml'')))
   \<and> ((\<exists>w'. renderAndCreate p ip w = Ok () w') \<longrightarrow>
       (\<exists>c. WriteFile ''kind.config.yaml'' c \<in> set (new_events w (world_of (renderAndCreate p ip w)))))
   \<and> ((\<exists>argv w'. renderAndCreate p ip w = Abort (CommandFailed argv) w') \<longrightarrow>
       (\<exists>c. WriteFile ''kind.config.yaml'' c \<in> set (new_events w (world_of (renderAndCreate p ip w)))))"
proof (cases rule: renderAndCreate_cases [of p ip w])
  case (early e)
  have "new_events w (os_Setenv ''KUBECONFIG'' (filepath_Join p (pwd w) kubeconfig) w)
          = [Setenv ''KUBECONFIG'' (filepath_Join p (pwd w) kubeconfig)]"
    by (simp add: new_events_def)
  with early show ?thesis by auto
next
  case (written kindCfg w2)
  let ?body = "andThen (mustRun p kindCreateArgs w2)
              (\<lambda>_ w3. andThen (mustRun p networkConnectArgs w3) (\<lambda>_. mustRun p applyRegistryArgs))"
  let ?c = "fst (template_Execute p kindCfg ip)"
  let ?W = "world_of (renderAndCreate p ip w)"
  obtain es where b: "trace (world_of ?body) = trace w2 @ Exec kindCreateArgs # es"
    using three_commands_trace by blast
  from written(2) have t2: "trace w2 = trace w @ [Setenv ''KUBECONFIG'' (filepath_Join p (pwd w) kubeconfig), WriteFile ''kind.config.yaml'' ?c]"
    by (auto dest: ioutil_WriteFile_Some)
  have W: "?W = os_Remove p ''kind.config.yaml'' (world_of ?body)"
    using written(3) by simp
  have l: "last (trace ?W) = Remove ''kind.config.yaml''"
    unfolding W by simp
  have g: "removable p ''kind.config.yaml'' (world_of ?body) \<longrightarrow> files ?W ''kind.config.yaml'' = None"
    unfolding W by simp
  have k: "\<not> removable p ''kind.config.yaml'' (world_of ?body) \<longrightarrow>
             files ?W ''kind.config.yaml'' = files (world_of ?body) ''kind.config.yaml''"
    unfolding W by simp
  have "trace ?W =
          trace w @ [Setenv ''KUBECONFIG'' (filepath_Join p (pwd w) kubeconfig), WriteFile ''kind.config.yaml'' ?c]
            @ Exec kindCreateArgs # es @ [Remove ''kind.config.yaml'']"
    unfolding W using b t2 by simp
  then have "WriteFile ''kind.config.yaml'' ?c \<in> set (new_events w ?W)"
    by (simp add: new_events_def)
  with W l g k show ?thesis by blast
qed

lemma renderAndCreate_extends:
  "\<exists>es. trace (world_of (renderAndCreate p ip w)) = trace w @ es"
proof (cases rule: renderAndCreate_cases [of p ip w])
  case (early e)
  then show ?thesis by simp
next
  case (written kindCfg w2)
  obtain es where "trace (world_of (andThen (mustRun p kindCreateArgs w2)
              (\<lambda>_ w3. andThen (mustRun p networkConnectArgs w3) (\<lambda>_. mustRun p applyRegistryArgs))))
            = trace w2 @ Exec kindCreateArgs # es"
    using three_commands_trace by blast
  with written show ?thesis
    by (auto dest: ioutil_WriteFile_Some)
qed

lemma new_events_split:
  "trace w1 = trace w @ ds \<Longrightarrow> trace w' = trace w1 @ es \<Longrightarrow> new_events w w' = ds @ new_events w1 w'"
  by (simp add: new_events_def)

text \<open>C3, as amended: once \<open>CreateKindCluster\<close> has written
  \<open>kind.config.yaml\<close>, its last effect is the attempt to remove that file,
  whether the function returns or a failing command stops the build: the
  deferred removal runs on both paths. A normal return and a stop by a failed
  command both lie after the write. The file is gone when the removal succeeds;
  the error of the removal is discarded, so a removal that fails leaves the file
  as it was and goes unreported.\<close>

theorem CreateKindCluster_removal_attempted:
  "((\<exists>c. WriteFile ''kind.config.yaml'' c \<in> set (new_events w (world_of (CreateKindCluster p w)))) \<longrightarrow>
       (\<exists>w3. world_of (CreateKindCluster p w) = os_Remove p ''kind.config.yaml'' w3
          \<and> last (trace (world_of (CreateKindCluster p w))) = Remove ''kind.config.yaml''
          \<and> (removable p ''kind.config.yaml'' w3 \<longrightarrow>
                files (world_of (CreateKindCluster p w)) ''kind.config.yaml'' = None)
          \<and> (\<not> removable p ''kind.config.yaml'' w3 \<longrightarrow>
                files (world_of (CreateKindCluster p w)) ''kind.config.yaml'' = files w3 ''kind.config.yaml'')))
   \<and> ((\<exists>w'. CreateKindCluster p w = Ok () w') \<longrightarrow>
       (\<exists>c. WriteFile ''kind.config.yaml'' c \<in> set (new_events w (world_of (CreateKindCluster p w)))))
   \<and> ((\<exists>argv w'. CreateKindCluster p w = Abort (CommandFailed argv) w') \<longrightarrow>
       (\<exists>c. WriteFile ''kind.config.yaml'' c \<in> set (new_events w (world_of (CreateKindCluster p w)))))"
proof (cases rule: Deps_EnsureKind_cases [of p w])
  case (failed w1)
  then have "CreateKindCluster p w = Abort (DownloadFailed ''kind'') w1"
    by (simp add: CreateKindCluster_def)
  moreover have "new_events w w1 = [Download kindURL ''kind'' kindVersion]"
    using failed(2) by (simp add: new_events_def)
  ultimately show ?thesis by auto
next
  case (ready w1 ds)
  have nd: "\<And>c. WriteFile ''kind.config.yaml'' c \<notin> set ds"
    using ready(3) by auto
  show ?thesis
  proof (cases "InterfaceAddrs p w1")
    case None
    with ready have "CreateKindCluster p w = Abort InterfaceAddrsFailed w1"
      by (simp add: CreateKindCluster_def)
    moreover have "new_events w w1 = ds"
      using ready(2) by (simp add: new_events_def)
    ultimately show ?thesis using nd by auto
  next
    case (Some addrs)
    let ?r = "renderAndCreate p (hostAddress (ip_other p) addrs) w1"
    from ready Some have eq: "CreateKindCluster p w = ?r"
      by (simp add: CreateKindCluster_def)
    obtain es where "trace (world_of ?r) = trace w1 @ es"
      using renderAndCreate_extends by blast
    with ready(2) have "new_events w (world_of ?r) = ds @ new_events w1 (world_of ?r)"
      by (rule new_events_split)
    with nd have "\<And>c. (WriteFile ''kind.config.yaml'' c \<in> set (new_events w (world_of ?r)))
                   = (WriteFile ''kind.config.yaml'' c \<in> set (new_events w1 (world_of ?r)))"
      by simp
    with renderAndCreate_cleanup [of w1 p "hostAddress (ip_other p) addrs"] eq
    show ?thesis by simp
  qed
qed


lemma flag_frame [simp]:
  "exec (p\<lparr>template_Execute := f\<rparr>) = exec p"
  "mustRun (p\<lparr>template_Execute := f\<rparr>) = mustRun p"
  "ioutil_WriteFile (p\<lparr>template_Execute := f\<rparr>) = ioutil_WriteFile p"
  "download (p\<lparr>template_Execute := f\<rparr>) = download p"
  "EnsureKind (p\<lparr>template_Execute := f\<rparr>) = EnsureKind p"
  "os_Remove (p\<lparr>template_Execute := f\<rparr>) = os_Remove p"
  by (simp_all add: fun_eq_iff exec_def mustRun_def ioutil_WriteFile_def download_def EnsureKind_def
        os_Remove_def)

lemma renderAndCreate_flag:
  "renderAndCreate (p\<lparr>template_Execute := \<lambda>t a. (fst (template_Execute p t a), flag)\<rparr>) ip w
     = renderAndCreate p ip w"
  by (simp add: renderAndCreate_def Let_def split: option.splits prod.splits)

text \<open>C9: the error of \<open>kindCfgTmpl.Execute\<close> has no influence on
  \<open>CreateKindCluster\<close>: a platform whose template engine reports a different
  error flag for the same output gives the same run. When the engine fails after
  writing \<open>partial\<close> to the buffer, the run goes on: it writes \<open>partial\<close> to
  \<open>kind.config.yaml\<close> and then calls \<open>kind create cluster\<close> with that file.\<close>

theorem CreateKindCluster_Execute_error_unchecked:
  "CreateKindCluster (p\<lparr>template_Execute := \<lambda>t a. (fst (template_Execute p t a), flag)\<rparr>) w
     = CreateKindCluster p w
   \<and> (Deps ''EnsureKind'' (EnsureKind p) w = Ok () w1
        \<and> InterfaceAddrs p w1 = Some addrs
        \<and> files w1 ''hack/kind.config.yaml'' = Some kindCfg
        \<and> template_Parse p kindCfg
        \<and> template_Execute p kindCfg (hostAddress (ip_other p) addrs) = (partial, False)
        \<and> writable p ''kind.config.yaml'' (os_Setenv ''KUBECONFIG'' (filepath_Join p (pwd w1) kubeconfig) w1)
      \<longrightarrow> take 3 (new_events w1 (world_of (CreateKindCluster p w)))
            = [Setenv ''KUBECONFIG'' (filepath_Join p (pwd w1) kubeconfig),
               WriteFile ''kind.config.yaml'' partial,
               Exec kindCreateArgs])"
proof -
  have a: "CreateKindCluster (p\<lparr>template_Execute := \<lambda>t a. (fst (template_Execute p t a), flag)\<rparr>) w
     = CreateKindCluster p w"
    by (simp add: CreateKindCluster_def renderAndCreate_flag cong: option.case_cong)
  have b: "take 3 (new_events w1 (world_of (CreateKindCluster p w)))
            = [Setenv ''KUBECONFIG'' (filepath_Join p (pwd w1) kubeconfig),
               WriteFile ''kind.config.yaml'' partial,
               Exec kindCreateArgs]"
    if d: "Deps ''EnsureKind'' (EnsureKind p) w = Ok () w1"
      and i: "InterfaceAddrs p w1 = Some addrs"
      and f: "files w1 ''hack/kind.config.yaml'' = Some kindCfg"
      and t: "template_Parse p kindCfg"
      and x: "template_Execute p kindCfg (hostAddress (ip_other p) addrs) = (partial, False)"
      and wr: "writable p ''kind.config.yaml'' (os_Setenv ''KUBECONFIG'' (filepath_Join p (pwd w1) kubeconfig) w1)"
  proof -
    let ?w1 = "os_Setenv ''KUBECONFIG'' (filepath_Join p (pwd w1) kubeconfig) w1"
    let ?w2 = "?w1\<lparr>files := (files ?w1)(''kind.config.yaml'' \<mapsto> partial),
                    trace := trace ?w1 @ [WriteFile ''kind.config.yaml'' partial]\<rparr>"
    let ?body = "andThen (mustRun p kindCreateArgs ?w2)
              (\<lambda>_ w3. andThen (mustRun p networkConnectArgs w3) (\<lambda>_. mustRun p applyRegistryArgs))"
    have "CreateKindCluster p w = renderAndCreate p (hostAddress (ip_other p) addrs) w1"
      using d i by (simp add: CreateKindCluster_def)
    also have "\<dots> = deferred (os_Remove p ''kind.config.yaml'') ?body"
      using f t x wr by (simp add: renderAndCreate_def Let_def ioutil_WriteFile_def)
    finally have r: "CreateKindCluster p w = deferred (os_Remove p ''kind.config.yaml'') ?body" .
    obtain es where "trace (world_of ?body) = trace ?w2 @ Exec kindCreateArgs # es"
      using three_commands_trace by blast
    then have "trace (world_of (CreateKindCluster p w)) =
        trace w1 @ [Setenv ''KUBECONFIG'' (filepath_Join p (pwd w1) kubeconfig),
               WriteFile ''kind.config.yaml'' partial, Exec kindCreateArgs] @ es @ [Remove ''kind.config.yaml'']"
      using r by simp
    then show ?thesis
      by (simp add: new_events_def)
  qed
  from a b show ?thesis by blast
qed


lemma hostAddress_ten: "hostAddress other [IPNet [10, 0, 0, 1] [255, 0, 0, 0]] = ''10.0.0.1''"
  by code_simp

lemma create_fails_on_connect:
  "\<exists>w'. CreateKindCluster (scripted [(kindCreateArgs, [], True)] [IPNet [10, 0, 0, 1] [255, 0, 0, 0]] True) (world0 ())
     = Abort (CommandFailed networkConnectArgs) w'"
proof -
  let ?p = "scripted [(kindCreateArgs, [], True)] [IPNet [10, 0, 0, 1] [255, 0, 0, 0]] True"
  let ?w1 = "(world0 ())\<lparr>onces := [''EnsureKind'']\<rparr>"
  let ?w1' = "os_Setenv ''KUBECONFIG'' (filepath_Join ?p (pwd ?w1) kubeconfig) ?w1"
  let ?w2 = "?w1'\<lparr>files := (files ?w1')(''kind.config.yaml'' \<mapsto> ''address: 10.0.0.1''),
                  trace := trace ?w1' @ [WriteFile ''kind.config.yaml'' ''address: 10.0.0.1'']\<rparr>"
  let ?w3 = "?w2\<lparr>trace := trace ?w2 @ [Exec kindCreateArgs]\<rparr>"
  let ?w4 = "?w3\<lparr>trace := trace ?w3 @ [Exec networkConnectArgs]\<rparr>"
  have ne: "networkConnectArgs \<noteq> kindCreateArgs"
    by (simp add: networkConnectArgs_def kindCreateArgs_def)
  have c: "CreateKindCluster ?p (world0 ()) = renderAndCreate ?p ''10.0.0.1'' ?w1"
    by (simp add: CreateKindCluster_def Deps_EnsureKind_scripted hostAddress_ten del: hostAddress.simps)
  have f: "files ?w1' ''hack/kind.config.yaml'' = Some ''address: ''"
    by (simp add: world0_def)
  have wr: "ioutil_WriteFile ?p ''kind.config.yaml'' ''address: 10.0.0.1'' ?w1' = Some ?w2"
    by (simp add: ioutil_WriteFile_def)
  have m1: "mustRun ?p kindCreateArgs ?w2 = Ok () ?w3"
    by (simp add: mustRun_scripted respond_hit)
  have m2: "mustRun ?p networkConnectArgs ?w3 = Abort (CommandFailed networkConnectArgs) ?w4"
    by (simp add: mustRun_scripted respond_miss [OF ne])
  have "renderAndCreate ?p ''10.0.0.1'' ?w1 = Abort (CommandFailed networkConnectArgs) (os_Remove ?p ''kind.config.yaml'' ?w4)"
    unfolding renderAndCreate_def Let_def using f wr m1 m2 by simp
  with c show ?thesis by simp
qed

theorem CreateKindCluster_removal_attempted_witness:
  "(\<exists>w'. CreateKindCluster (scripted [(kindCreateArgs, [], True)] [IPNet [10, 0, 0, 1] [255, 0, 0, 0]] True) (world0 ())
           = Abort (CommandFailed networkConnectArgs) w')
   \<and> (\<exists>c. WriteFile ''kind.config.yaml'' c \<in> set (new_events (world0 ())
         (world_of (CreateKindCluster (scripted [(kindCreateArgs, [], True)] [IPNet [10, 0, 0, 1] [255, 0, 0, 0]] True) (world0 ())))))
   \<and> last (trace (world_of (CreateKindCluster (scripted [(kindCreateArgs, [], True)] [IPNet [10, 0, 0, 1] [255, 0, 0, 0]] True) (world0 ()))))
       = Remove ''kind.config.yaml''
   \<and> files (world_of (CreateKindCluster (scripted [(kindCreateArgs, [], True)] [IPNet [10, 0, 0, 1] [255, 0, 0, 0]] True) (world0 ())))
        ''kind.config.yaml'' = None"
proof -
  let ?p = "scripted [(kindCreateArgs, [], True)] [IPNet [10, 0, 0, 1] [255, 0, 0, 0]] True"
  let ?W = "world_of (CreateKindCluster ?p (world0 ()))"
  note a = create_fails_on_connect
  note t = CreateKindCluster_removal_attempted [of "world0 ()" ?p]
  from a t have wr: "\<exists>c. WriteFile ''kind.config.yaml'' c \<in> set (new_events (world0 ()) ?W)"
    by blast
  with t obtain w3 where
      "last (trace ?W) = Remove ''kind.config.yaml''"
      "removable ?p ''kind.config.yaml'' w3 \<longrightarrow> files ?W ''kind.config.yaml'' = None"
    by blast
  moreover have "removable ?p ''kind.config.yaml'' w3"
    by simp
  ultimately show ?thesis
    using a wr by blast
qed

lemma sticky_frame [simp]:
  "exec (stickyDisk tbl addrs) = exec (scripted tbl addrs True)"
  "mustRun (stickyDisk tbl addrs) = mustRun (scripted tbl addrs True)"
  "ioutil_WriteFile (stickyDisk tbl addrs) = ioutil_WriteFile (scripted tbl addrs True)"
  "EnsureKind (stickyDisk tbl addrs) = EnsureKind (scripted tbl addrs True)"
  "InterfaceAddrs (stickyDisk tbl addrs) = (\<lambda>w. Some addrs)"
  "template_Parse (stickyDisk tbl addrs) = (\<lambda>t. True)"
  "template_Execute (stickyDisk tbl addrs) = (\<lambda>t a. (t @ a, True))"
  "filepath_Join (stickyDisk tbl addrs) = (\<lambda>a b. a @ ''/'' @ b)"
  "ip_other (stickyDisk tbl addrs) = (\<lambda>ip. [])"
  "removable (stickyDisk tbl addrs) = (\<lambda>name w. False)"
  by (simp_all add: fun_eq_iff stickyDisk_def exec_def mustRun_def ioutil_WriteFile_def
        download_def EnsureKind_def)

lemma hostAddress_loopback: "hostAddress other [IPNet [127, 0, 0, 1] [255, 0, 0, 0]] = []"
  by code_simp

text \<open>C3, as stated, fails: on a disk where \<open>kind.config.yaml\<close> can be written but
  not removed, \<open>CreateKindCluster\<close> returns normally, every command having
  succeeded, and the rendered file is still there.\<close>

theorem CreateKindCluster_leaves_config:
  "CreateKindCluster
     (stickyDisk [(kindCreateArgs, [], True), (networkConnectArgs, [], True), (applyRegistryArgs, [], True)]
        [IPNet [127, 0, 0, 1] [255, 0, 0, 0]]) (world0 ())
     = Ok () ((world0 ())
         \<lparr>files := (files (world0 ()))(''kind.config.yaml'' \<mapsto> ''address: ''),
          environ := (environ (world0 ()))(''KUBECONFIG'' \<mapsto> ''/src/kind.config''),
          onces := [''EnsureKind''],
          trace := [Setenv ''KUBECONFIG'' ''/src/kind.config'',
                    WriteFile ''kind.config.yaml'' ''address: '',
                    Exec kindCreateArgs, Exec networkConnectArgs, Exec applyRegistryArgs,
                    Remove ''kind.config.yaml'']\<rparr>)
   \<and> files (world_of (CreateKindCluster
        (stickyDisk [(kindCreateArgs, [], True), (networkConnectArgs, [], True), (applyRegistryArgs, [], True)]
           [IPNet [127, 0, 0, 1] [255, 0, 0, 0]]) (world0 ()))) ''kind.config.yaml'' = Some ''address: ''"
proof -
  let ?tbl = "[(kindCreateArgs, [], True), (networkConnectArgs, [], True), (applyRegistryArgs, [], True)]"
  let ?zs = "[IPNet [127, 0, 0, 1] [255, 0, 0, 0]]"
  let ?p = "stickyDisk ?tbl ?zs"
  let ?q = "scripted ?tbl ?zs True"
  let ?w1 = "(world0 ())\<lparr>onces := [''EnsureKind'']\<rparr>"
  let ?w1' = "os_Setenv ''KUBECONFIG'' (filepath_Join ?p (pwd ?w1) kubeconfig) ?w1"
  let ?w2 = "?w1'\<lparr>files := (files ?w1')(''kind.config.yaml'' \<mapsto> ''address: ''),
                  trace := trace ?w1' @ [WriteFile ''kind.config.yaml'' ''address: '']\<rparr>"
  let ?w3 = "?w2\<lparr>trace := trace ?w2 @ [Exec kindCreateArgs]\<rparr>"
  let ?w4 = "?w3\<lparr>trace := trace ?w3 @ [Exec networkConnectArgs]\<rparr>"
  let ?w5 = "?w4\<lparr>trace := trace ?w4 @ [Exec applyRegistryArgs]\<rparr>"
  let ?W = "(world0 ())
         \<lparr>files := (files (world0 ()))(''kind.config.yaml'' \<mapsto> ''address: ''),
          environ := (environ (world0 ()))(''KUBECONFIG'' \<mapsto> ''/src/kind.config''),
          onces := [''EnsureKind''],
          trace := [Setenv ''KUBECONFIG'' ''/src/kind.config'',
                    WriteFile ''kind.config.yaml'' ''address: '',
                    Exec kindCreateArgs, Exec networkConnectArgs, Exec applyRegistryArgs,
                    Remove ''kind.config.yaml'']\<rparr>"
  have c: "CreateKindCluster ?p (world0 ()) = renderAndCreate ?p [] ?w1"
    by (simp add: CreateKindCluster_def Deps_EnsureKind_scripted hostAddress_loopback del: hostAddress.simps)
  have f: "files ?w1' ''hack/kind.config.yaml'' = Some ''address: ''"
    by (simp add: world0_def)
  have wr: "ioutil_WriteFile ?q ''kind.config.yaml'' ''address: '' ?w1' = Some ?w2"
    by (simp add: ioutil_WriteFile_def)
  have m1: "mustRun ?q kindCreateArgs ?w2 = Ok () ?w3"
    by (simp add: mustRun_scripted respond_Cons)
  have m2: "mustRun ?q networkConnectArgs ?w3 = Ok () ?w4"
    by (simp add: mustRun_scripted respond_Cons create_args_distinct)
  have m3: "mustRun ?q applyRegistryArgs ?w4 = Ok () ?w5"
    by (simp add: mustRun_scripted respond_Cons create_args_distinct)
  have r: "renderAndCreate ?p [] ?w1 = Ok () (os_Remove ?p ''kind.config.yaml'' ?w5)"
    unfolding renderAndCreate_def Let_def using f wr m1 m2 m3 by simp
  have e: "os_Remove ?p ''kind.config.yaml'' ?w5 = ?W"
    by (simp add: os_Remove_def os_Setenv_def world0_def pwd_def kubeconfig_def)
  have 1: "CreateKindCluster ?p (world0 ()) = Ok () ?W"
    using c r e by simp
  have 2: "files ?W ''kind.config.yaml'' = Some ''address: ''"
    by simp
  from 1 2 show ?thesis by simp
qed

theorem CreateKindCluster_Execute_error_unchecked_witness:
  "CreateKindCluster (scripted [(kindCreateArgs, [], True)] [IPNet [10, 0, 0, 1] [255, 0, 0, 0]] False) (world0 ())
     = CreateKindCluster (scripted [(kindCreateArgs, [], True)] [IPNet [10, 0, 0, 1] [255, 0, 0, 0]] True) (world0 ())
   \<and> take 3 (trace (world_of
        (CreateKindCluster (scripted [(kindCreateArgs, [], True)] [IPNet [10, 0, 0, 1] [255, 0, 0, 0]] False) (world0 ()))))
       = [Setenv ''KUBECONFIG'' ''/src/kind.config'',
          WriteFile ''kind.config.yaml'' ''address: 10.0.0.1'',
          Exec kindCreateArgs]"
proof -
  let ?tbl = "[(kindCreateArgs, [], True)]"
  let ?addrs = "[IPNet [10, 0, 0, 1] [255, 0, 0, 0]]"
  let ?w1 = "(world0 ())\<lparr>onces := [''EnsureKind'']\<rparr>"
  have u: "(scripted ?tbl ?addrs True)\<lparr>template_Execute :=
              \<lambda>t a. (fst (template_Execute (scripted ?tbl ?addrs True) t a), False)\<rparr>
           = scripted ?tbl ?addrs False"
    by (simp add: scripted_def)
  from CreateKindCluster_Execute_error_unchecked [of "scripted ?tbl ?addrs True" False "world0 ()"] u
  have 1: "CreateKindCluster (scripted ?tbl ?addrs False) (world0 ())
             = CreateKindCluster (scripted ?tbl ?addrs True) (world0 ())"
    by simp
  have d: "Deps ''EnsureKind'' (EnsureKind (scripted ?tbl ?addrs False)) (world0 ()) = Ok () ?w1"
    by (rule Deps_EnsureKind_scripted)
  have i: "InterfaceAddrs (scripted ?tbl ?addrs False) ?w1 = Some ?addrs"
    by simp
  have f: "files ?w1 ''hack/kind.config.yaml'' = Some ''address: ''"
    by (simp add: world0_def)
  have t: "template_Parse (scripted ?tbl ?addrs False) ''address: ''"
    by simp
  have x: "template_Execute (scripted ?tbl ?addrs False) ''address: ''
             (hostAddress (ip_other (scripted ?tbl ?addrs False)) ?addrs) = (''address: 10.0.0.1'', False)"
    by (simp add: hostAddress_ten del: hostAddress.simps)
  have wr: "writable (scripted ?tbl ?addrs False) ''kind.config.yaml''
              (os_Setenv ''KUBECONFIG'' (filepath_Join (scripted ?tbl ?addrs False) (pwd ?w1) kubeconfig) ?w1)"
    by simp
  have n: "new_events ?w1 (world_of (CreateKindCluster (scripted ?tbl ?addrs False) (world0 ())))
             = trace (world_of (CreateKindCluster (scripted ?tbl ?addrs False) (world0 ())))"
    by (simp add: new_events_def world0_def)
  have j: "filepath_Join (scripted ?tbl ?addrs False) (pwd ?w1) kubeconfig = ''/src/kind.config''"
    by (simp add: pwd_def world0_def kubeconfig_def)
  from CreateKindCluster_Execute_error_unchecked
         [of "scripted ?tbl ?addrs False" False "world0 ()" ?w1 ?addrs "''address: ''" "''address: 10.0.0.1''"]
       d i f t x wr
  have 2: "take 3 (new_events ?w1 (world_of (CreateKindCluster (scripted ?tbl ?addrs False) (world0 ()))))
             = [Setenv ''KUBECONFIG'' (filepath_Join (scripted ?tbl ?addrs False) (pwd ?w1) kubeconfig),
                WriteFile ''kind.config.yaml'' ''address: 10.0.0.1'', Exec kindCreateArgs]"
    by blast
  from 1 2 n j show ?thesis
    by simp
qed

subsection \<open>The host address\<close>

lemma To4_length: "To4 ip = Some ip4 \<Longrightarrow> length ip4 = 4"
  by (auto simp: To4_def split: if_splits)

lemma IP_String_dotted: "To4 ip \<noteq> None \<Longrightarrow> IP_String other ip = dotted (IPNet ip m)"
proof -
  assume "To4 ip \<noteq> None"
  then obtain ip4 where s: "To4 ip = Some ip4" by auto
  then have "length ip4 = 4" by (rule To4_length)
  then obtain a b c d where "ip4 = [a, b, c, d]"
    by (cases ip4; simp; rename_tac x xs; case_tac xs; simp; rename_tac y ys; case_tac ys; simp; rename_tac z zs; case_tac zs; simp)
  with s show ?thesis by (simp add: IP_String_def)
qed

lemma hostAddress_find: "hostAddress other addrs = spec_hostAddress addrs"
proof (induction addrs)
  case Nil
  show ?case by (simp add: spec_hostAddress_def)
next
  case (Cons a addrs)
  show ?case
  proof (cases a)
    case (IPNet ip m)
    with Cons show ?thesis
      by (auto simp: spec_hostAddress_def IP_String_dotted [of ip other m])
  next
    case (OtherAddr s)
    with Cons show ?thesis
      by (simp add: spec_hostAddress_def)
  qed
qed

lemma find_none: "(\<forall>a\<in>set addrs. \<not> eligible a) \<Longrightarrow> List.find eligible addrs = None"
  by (simp add: find_None_iff)

text \<open>C8: the address \<open>CreateKindCluster\<close> substitutes into the template is
  that of the first address, in the order \<open>net.InterfaceAddrs\<close> reports them,
  that is an IP network, not a loopback address and IPv4, in dotted decimal.
  When there is none the address is the empty string, and \<open>CreateKindCluster\<close>
  goes on to render and create with it: no failure arises from the missing
  address.\<close>

theorem hostAddress_first_eligible:
  "hostAddress (ip_other p) addrs = spec_hostAddress addrs
   \<and> ((\<forall>a\<in>set addrs. \<not> eligible a) \<longrightarrow> hostAddress (ip_other p) addrs = [])
   \<and> (Deps ''EnsureKind'' (EnsureKind p) w = Ok () w1 \<and> InterfaceAddrs p w1 = Some addrs \<longrightarrow>
        CreateKindCluster p w = renderAndCreate p (spec_hostAddress addrs) w1)
   \<and> (Deps ''EnsureKind'' (EnsureKind p) w = Ok () w1 \<and> InterfaceAddrs p w1 = Some addrs
        \<and> (\<forall>a\<in>set addrs. \<not> eligible a) \<longrightarrow>
        CreateKindCluster p w = renderAndCreate p [] w1)"
proof -
  have a: "hostAddress (ip_other p) addrs = spec_hostAddress addrs"
    by (rule hostAddress_find)
  have b: "(\<forall>a\<in>set addrs. \<not> eligible a) \<longrightarrow> spec_hostAddress addrs = []"
    by (simp add: spec_hostAddress_def find_none)
  have c: "Deps ''EnsureKind'' (EnsureKind p) w = Ok () w1 \<and> InterfaceAddrs p w1 = Some addrs \<longrightarrow>
        CreateKindCluster p w = renderAndCreate p (spec_hostAddress addrs) w1"
    by (simp add: CreateKindCluster_def a)
  from a b c show ?thesis by simp
qed




theorem hostAddress_first_eligible_witness:
  "hostAddress (ip_other (scripted [] [] True))
     [IPNet [127, 0, 0, 1] [255, 0, 0, 0], OtherAddr ''lo'', IPNet (replicate 15 0 @ [1]) [],
      IPNet [192, 168, 1, 5] [255, 255, 255, 0], IPNet [10, 0, 0, 1] [255, 0, 0, 0]] = ''192.168.1.5''
   \<and> hostAddress (ip_other (scripted [] [] True))
        [IPNet [127, 0, 0, 1] [255, 0, 0, 0], IPNet (replicate 15 0 @ [1]) []] = []
   \<and> CreateKindCluster
        (scripted [(kindCreateArgs, [], True), (networkConnectArgs, [], True), (applyRegistryArgs, [], True)]
           [IPNet [127, 0, 0, 1] [255, 0, 0, 0]] True) (world0 ())
       = Ok () ((world0 ())
           \<lparr>files := (files (world0 ()))(''kind.config.yaml'' := None),
            environ := (environ (world0 ()))(''KUBECONFIG'' \<mapsto> ''/src/kind.config''),
            onces := [''EnsureKind''],
            trace := [Setenv ''KUBECONFIG'' ''/src/kind.config'',
                      WriteFile ''kind.config.yaml'' ''address: '',
                      Exec kindCreateArgs, Exec networkConnectArgs, Exec applyRegistryArgs,
                      Remove ''kind.config.yaml'']\<rparr>)"
proof -
  let ?xs = "[IPNet [127, 0, 0, 1] [255, 0, 0, 0], OtherAddr ''lo'', IPNet (replicate 15 0 @ [1]) [],
      IPNet [192, 168, 1, 5] [255, 255, 255, 0], IPNet [10, 0, 0, 1] [255, 0, 0, 0]]"
  let ?ys = "[IPNet [127, 0, 0, 1] [255, 0, 0, 0], IPNet (replicate 15 0 @ [1]) []]"
  let ?zs = "[IPNet [127, 0, 0, 1] [255, 0, 0, 0]]"
  let ?tbl = "[(kindCreateArgs, [], True), (networkConnectArgs, [], True), (applyRegistryArgs, [], True)]"
  let ?p = "scripted ?tbl ?zs True"
  let ?w1 = "(world0 ())\<lparr>onces := [''EnsureKind'']\<rparr>"
  let ?w1' = "os_Setenv ''KUBECONFIG'' (filepath_Join ?p (pwd ?w1) kubeconfig) ?w1"
  let ?w2 = "?w1'\<lparr>files := (files ?w1')(''kind.config.yaml'' \<mapsto> ''address: ''),
                  trace := trace ?w1' @ [WriteFile ''kind.config.yaml'' ''address: '']\<rparr>"
  let ?w3 = "?w2\<lparr>trace := trace ?w2 @ [Exec kindCreateArgs]\<rparr>"
  let ?w4 = "?w3\<lparr>trace := trace ?w3 @ [Exec networkConnectArgs]\<rparr>"
  let ?w5 = "?w4\<lparr>trace := trace ?w4 @ [Exec applyRegistryArgs]\<rparr>"
  have x: "spec_hostAddress ?xs = ''192.168.1.5''"
    by code_simp
  have y: "\<forall>a\<in>set ?ys. \<not> eligible a"
    by code_simp
  have z: "\<forall>a\<in>set ?zs. \<not> eligible a"
    by code_simp
  have d: "Deps ''EnsureKind'' (EnsureKind ?p) (world0 ()) = Ok () ?w1"
    by (rule Deps_EnsureKind_scripted)
  have i: "InterfaceAddrs ?p ?w1 = Some ?zs"
    by simp
  from hostAddress_first_eligible [of "scripted [] [] True" ?xs] x
  have 1: "hostAddress (ip_other (scripted [] [] True)) ?xs = ''192.168.1.5''"
    by simp
  from hostAddress_first_eligible [of "scripted [] [] True" ?ys] y
  have 2: "hostAddress (ip_other (scripted [] [] True)) ?ys = []"
    by blast
  from hostAddress_first_eligible [of ?p ?zs "world0 ()" ?w1] z d i
  have c: "CreateKindCluster ?p (world0 ()) = renderAndCreate ?p [] ?w1"
    by blast
  have f: "files ?w1' ''hack/kind.config.yaml'' = Some ''address: ''"
    by (simp add: world0_def)
  have wr: "ioutil_WriteFile ?p ''kind.config.yaml'' ''address: '' ?w1' = Some ?w2"
    by (simp add: ioutil_WriteFile_def)
  have m1: "mustRun ?p kindCreateArgs ?w2 = Ok () ?w3"
    by (simp add: mustRun_scripted respond_Cons)
  have m2: "mustRun ?p networkConnectArgs ?w3 = Ok () ?w4"
    by (simp add: mustRun_scripted respond_Cons create_args_distinct)
  have m3: "mustRun ?p applyRegistryArgs ?w4 = Ok () ?w5"
    by (simp add: mustRun_scripted respond_Cons create_args_distinct)
  have r: "renderAndCreate ?p [] ?w1 = Ok () (os_Remove ?p ''kind.config.yaml'' ?w5)"
    unfolding renderAndCreate_def Let_def using f wr m1 m2 m3 by simp
  have e: "os_Remove ?p ''kind.config.yaml'' ?w5 = (world0 ())
           \<lparr>files := (files (world0 ()))(''kind.config.yaml'' := None),
            environ := (environ (world0 ()))(''KUBECONFIG'' \<mapsto> ''/src/kind.config''),
            onces := [''EnsureKind''],
            trace := [Setenv ''KUBECONFIG'' ''/src/kind.config'',
                      WriteFile ''kind.config.yaml'' ''address: '',
                      Exec kindCreateArgs, Exec networkConnectArgs, Exec applyRegistryArgs,
                      Remove ''kind.config.yaml'']\<rparr>"
    by (simp add: os_Remove_def os_Setenv_def world0_def pwd_def kubeconfig_def)
  from 1 2 c r e show ?thesis
    by simp
qed

subsection \<open>The network link\<close>

lemma hasPrefix_iff: "hasPrefix s t = (\<exists>post. s = t @ post)"
  by (induction s t rule: hasPrefix.induct) auto

lemma strings_Contains_iff: "strings_Contains s t = (\<exists>pre post. s = pre @ t @ post)"
proof (induction s)
  case Nil
  show ?case by auto
next
  case (Cons c cs)
  show ?case
  proof
    assume "strings_Contains (c # cs) t"
    then consider "hasPrefix (c # cs) t" | "strings_Contains cs t" by auto
    then show "\<exists>pre post. c # cs = pre @ t @ post"
    proof cases
      case 1
      then obtain post where "c # cs = t @ post" by (auto simp: hasPrefix_iff)
      then have "c # cs = [] @ t @ post" by simp
      then show ?thesis by blast
    next
      case 2
      with Cons obtain pre post where "cs = pre @ t @ post" by blast
      then have "c # cs = (c # pre) @ t @ post" by simp
      then show ?thesis by blast
    qed
  next
    assume "\<exists>pre post. c # cs = pre @ t @ post"
    then obtain pre post where e: "c # cs = pre @ t @ post" by blast
    show "strings_Contains (c # cs) t"
    proof (cases pre)
      case Nil
      with e have "hasPrefix (c # cs) t" by (auto simp: hasPrefix_iff)
      then show ?thesis by simp
    next
      case (Cons d ds)
      with e have "cs = ds @ t @ post" by simp
      with Cons.IH have "strings_Contains cs t" by blast
      then show ?thesis by simp
    qed
  qed
qed

lemma strings_Contains_empty [simp]: "strings_Contains s []"
  by (cases s) simp_all

lemma untilQuote_prefix: "\<exists>post. s = untilQuote s @ post"
  by (induction s) auto

lemma networkIDs_substring:
  "networkId \<in> set (networkIDs s) \<Longrightarrow> \<exists>pre post. s = pre @ networkId @ post"
proof (induction s)
  case Nil
  then show ?case by simp
next
  case (Cons c cs)
  from Cons.prems consider
      (here) "networkId = untilQuote (drop (length networkIdKey) (c # cs))"
    | (later) "networkId \<in> set (networkIDs cs)"
    by (auto split: if_splits)
  then show ?case
  proof cases
    case here
    obtain post where "drop (length networkIdKey) (c # cs) = networkId @ post"
      using untilQuote_prefix [of "drop (length networkIdKey) (c # cs)"] here by auto
    then have "c # cs = take (length networkIdKey) (c # cs) @ networkId @ post"
      by (metis append_take_drop_id)
    then show ?thesis by blast
  next
    case later
    with Cons.IH obtain pre post where "cs = pre @ networkId @ post" by blast
    then have "c # cs = (c # pre) @ networkId @ post" by simp
    then show ?thesis by blast
  qed
qed

text \<open>C4, as amended: when both lookups succeed, \<open>isOnDockerNetwork\<close> returns
  true exactly when the identifier the network lookup printed occurs as a
  contiguous substring of the serialized network settings of the container. An
  identifier listed there under \<open>NetworkID\<close> always makes it true; the converse
  does not hold (see the counterexample).\<close>

theorem isOnDockerNetwork_substring:
  assumes "exec p [''docker'', ''network'', ''inspect'', network, ''-f'', ''{{.Id}}''] w = ((networkId, True), w1)"
      and "exec p [''docker'', ''inspect'', container, ''-f'', ''{{json .NetworkSettings.Networks}}''] w1
             = ((networks, True), w2)"
  shows "isOnDockerNetwork p container network w = (strings_Contains networks networkId, w2)
       \<and> fst (isOnDockerNetwork p container network w) = (\<exists>pre post. networks = pre @ networkId @ post)
       \<and> (spec_isLinked networkId networks \<longrightarrow> fst (isOnDockerNetwork p container network w))"
proof -
  have a: "isOnDockerNetwork p container network w = (strings_Contains networks networkId, w2)"
    using assms by (simp add: isOnDockerNetwork_def)
  have b: "spec_isLinked networkId networks \<longrightarrow> strings_Contains networks networkId"
    by (auto simp: spec_isLinked_def strings_Contains_iff dest: networkIDs_substring)
  from a b show ?thesis
    by (simp add: strings_Contains_iff)
qed

lemma isOnDockerNetwork_kind:
  "isOnDockerNetwork p registryContainer ''kind'' w =
     (case exec p networkInspectArgs w of
        ((networkId, ok1), w1) \<Rightarrow>
          (case exec p registryNetworksArgs w1 of
             ((networks, ok2), w2) \<Rightarrow> (strings_Contains networks networkId, w2)))"
  by (simp add: isOnDockerNetwork_def networkInspectArgs_def registryNetworksArgs_def)

lemma args_distinct:
  "registryNetworksArgs \<noteq> networkInspectArgs"
  "networkInspectArgs \<noteq> kindDeleteArgs" "registryNetworksArgs \<noteq> kindDeleteArgs"
  "networkDisconnectArgs \<noteq> kindDeleteArgs"
  by (simp_all add: registryNetworksArgs_def networkInspectArgs_def kindDeleteArgs_def networkDisconnectArgs_def)

lemma respond2:
  "respond [(a, r), (b, s)] a = r"
  "b \<noteq> a \<Longrightarrow> respond [(a, r), (b, s)] b = s"
  by (simp_all add: respond_def)

lemma sample_ids: "networkIDs sampleNetworks = [''abcdef'']"
  by code_simp

lemma sample_contains: "strings_Contains sampleNetworks ''abc''"
  by code_simp

text \<open>C4, as stated, fails: the network lookup prints \<open>abc\<close>, the container's
  settings list the single network \<open>abcdef\<close>, and \<open>isOnDockerNetwork\<close>
  returns true although \<open>abc\<close> is not among the attached networks.\<close>

theorem isOnDockerNetwork_false_positive:
  "fst (exec (scripted [(networkInspectArgs, ''abc'', True), (registryNetworksArgs, sampleNetworks, True)] [] True)
          networkInspectArgs (world0 ())) = (''abc'', True)
   \<and> fst (exec (scripted [(networkInspectArgs, ''abc'', True), (registryNetworksArgs, sampleNetworks, True)] [] True)
          registryNetworksArgs (world0 ())) = (sampleNetworks, True)
   \<and> fst (isOnDockerNetwork
            (scripted [(networkInspectArgs, ''abc'', True), (registryNetworksArgs, sampleNetworks, True)] [] True)
            registryContainer ''kind'' (world0 ()))
   \<and> \<not> spec_isLinked ''abc'' sampleNetworks"
  by (simp add: isOnDockerNetwork_kind exec_scripted respond2 args_distinct sample_contains
        spec_isLinked_def sample_ids)

theorem isOnDockerNetwork_substring_witness:
  "spec_isLinked ''abcdef'' sampleNetworks
   \<and> fst (isOnDockerNetwork
            (scripted [(networkInspectArgs, ''abcdef'', True), (registryNetworksArgs, sampleNetworks, True)] [] True)
            registryContainer ''kind'' (world0 ()))"
proof -
  let ?p = "scripted [(networkInspectArgs, ''abcdef'', True), (registryNetworksArgs, sampleNetworks, True)] [] True"
  let ?w1 = "(world0 ())\<lparr>trace := trace (world0 ()) @ [Exec networkInspectArgs]\<rparr>"
  let ?w2 = "?w1\<lparr>trace := trace ?w1 @ [Exec registryNetworksArgs]\<rparr>"
  have a: "spec_isLinked ''abcdef'' sampleNetworks"
    by (simp add: spec_isLinked_def sample_ids)
  have n: "exec ?p [''docker'', ''network'', ''inspect'', ''kind'', ''-f'', ''{{.Id}}''] (world0 ())
             = ((''abcdef'', True), ?w1)"
    using respond2(1) [of networkInspectArgs "(''abcdef'', True)"]
    by (simp add: exec_scripted networkInspectArgs_def)
  have c: "exec ?p [''docker'', ''inspect'', registryContainer, ''-f'', ''{{json .NetworkSettings.Networks}}''] ?w1
             = ((sampleNetworks, True), ?w2)"
    using respond2(2) [OF args_distinct(1), of "(''abcdef'', True)" "(sampleNetworks, True)"]
    by (simp add: exec_scripted registryNetworksArgs_def)
  from isOnDockerNetwork_substring [OF n c] a show ?thesis
    by blast
qed

subsection \<open>Deleting the cluster\<close>

text \<open>Both lookups of \<open>isOnDockerNetwork\<close> discard their error. When the network
  lookup fails and prints nothing, the identifier is the empty string, which
  every text contains: the answer is true whatever the container is attached
  to.\<close>

lemma isOnDockerNetwork_empty_id:
  "fst (fst (exec p [''docker'', ''network'', ''inspect'', network, ''-f'', ''{{.Id}}''] w)) = [] \<Longrightarrow>
   fst (isOnDockerNetwork p container network w)"
  by (auto simp: isOnDockerNetwork_def split: prod.splits)

text \<open>C5: \<open>DeleteKindCluster\<close> is meant to tolerate absence and to disconnect the
  registry only when it is linked. On a host that has no cluster, no docker
  network named \<open>kind\<close> and no registry container (\<open>kind delete cluster\<close>
  succeeds, both lookups fail and print nothing, the disconnect fails), the code
  takes the registry for linked, issues the disconnect and the build stops on
  its failure.\<close>

theorem DeleteKindCluster_aborts_without_network:
  "respond [(kindDeleteArgs, [], True)] networkInspectArgs = ([], False)
   \<and> respond [(kindDeleteArgs, [], True)] registryNetworksArgs = ([], False)
   \<and> DeleteKindCluster (scripted [(kindDeleteArgs, [], True)] [] True) (world0 ())
       = Abort (CommandFailed networkDisconnectArgs)
           ((world0 ())\<lparr>onces := [''EnsureKind''],
                         trace := [Exec kindDeleteArgs, Exec networkInspectArgs,
                                   Exec registryNetworksArgs, Exec networkDisconnectArgs]\<rparr>)"
proof -
  let ?p = "scripted [(kindDeleteArgs, [], True)] [] True"
  let ?w1 = "(world0 ())\<lparr>onces := [''EnsureKind'']\<rparr>"
  let ?w2 = "?w1\<lparr>trace := trace ?w1 @ [Exec kindDeleteArgs]\<rparr>"
  let ?w3 = "?w2\<lparr>trace := trace ?w2 @ [Exec networkInspectArgs]\<rparr>"
  let ?w4 = "?w3\<lparr>trace := trace ?w3 @ [Exec registryNetworksArgs]\<rparr>"
  let ?w5 = "?w4\<lparr>trace := trace ?w4 @ [Exec networkDisconnectArgs]\<rparr>"
  have r1: "respond [(kindDeleteArgs, [], True)] networkInspectArgs = ([], False)"
    by (rule respond_miss [OF args_distinct(2)])
  have r2: "respond [(kindDeleteArgs, [], True)] registryNetworksArgs = ([], False)"
    by (rule respond_miss [OF args_distinct(3)])
  have r3: "respond [(kindDeleteArgs, [], True)] networkDisconnectArgs = ([], False)"
    by (rule respond_miss [OF args_distinct(4)])
  have d: "mustRun ?p kindDeleteArgs ?w1 = Ok () ?w2"
    by (simp add: mustRun_scripted respond_hit)
  have l: "isOnDockerNetwork ?p registryContainer ''kind'' ?w2 = (True, ?w4)"
    by (simp add: isOnDockerNetwork_kind exec_scripted r1 r2)
  have x: "mustRun ?p networkDisconnectArgs ?w4 = Abort (CommandFailed networkDisconnectArgs) ?w5"
    by (simp add: mustRun_scripted r3)
  have "DeleteKindCluster ?p (world0 ()) = Abort (CommandFailed networkDisconnectArgs) ?w5"
    unfolding DeleteKindCluster_def Deps_EnsureKind_scripted
    using d l x
    by (simp add: kindDeleteArgs_def [symmetric] networkDisconnectArgs_def [symmetric])
  moreover have "?w5 = (world0 ())\<lparr>onces := [''EnsureKind''],
                         trace := [Exec kindDeleteArgs, Exec networkInspectArgs,
                                   Exec registryNetworksArgs, Exec networkDisconnectArgs]\<rparr>"
    by (simp add: world0_def)
  ultimately show ?thesis using r1 r2 by simp
qed

text \<open>The guard as written: the disconnect is issued exactly when
  \<open>isOnDockerNetwork\<close> answers true, and \<open>kind delete cluster\<close> runs through the
  builder \<open>must\<close>, so its failure stops the build before the guard.\<close>

lemma DeleteKindCluster_guard:
  assumes "Deps ''EnsureKind'' (EnsureKind p) w = Ok () w1"
      and "mustRun p kindDeleteArgs w1 = Ok () w2"
      and "isOnDockerNetwork p registryContainer ''kind'' w2 = (linked, w3)"
  shows "DeleteKindCluster p w = (if linked then mustRun p networkDisconnectArgs w3 else Ok () w3)"
  using assms
  by (simp add: DeleteKindCluster_def kindDeleteArgs_def [symmetric] networkDisconnectArgs_def [symmetric])

lemma DeleteKindCluster_strict:
  assumes "Deps ''EnsureKind'' (EnsureKind p) w = Ok () w1"
      and "mustRun p kindDeleteArgs w1 = Abort e w2"
  shows "DeleteKindCluster p w = Abort e w2"
  using assms
  by (simp add: DeleteKindCluster_def kindDeleteArgs_def [symmetric])

subsection \<open>Reusing or creating the cluster\<close>

lemma only_refl [simp]: "only P w w"
  by (simp add: only_def)

lemma only_same_trace: "trace w' = trace w \<Longrightarrow> only P w w'"
  by (simp add: only_def)

lemma only_trans: "only P w w1 \<Longrightarrow> only P w1 w2 \<Longrightarrow> only P w w2"
  by (auto simp: only_def)

lemma only_step: "trace w' = trace w @ [e] \<Longrightarrow> P e \<Longrightarrow> only P w w'"
  by (simp add: only_def)

lemma only_new_events: "only P w w' \<Longrightarrow> \<forall>e\<in>set (new_events w w'). P e"
  by (auto simp: only_def new_events_def)

lemma only_exec: "P (Exec argv) \<Longrightarrow> only P w (snd (exec p argv w))"
  by (rule only_step [where e = "Exec argv"]) simp_all

lemma only_mustRun: "P (Exec argv) \<Longrightarrow> only P w (world_of (mustRun p argv w))"
  by (rule only_step [where e = "Exec argv"]) simp_all

lemma only_andThen:
  assumes "only P w (world_of r)" and "\<And>a w'. only P w' (world_of (f a w'))"
  shows "only P w (world_of (andThen r f))"
proof (cases r)
  case (Ok a w1)
  with assms(1) have "only P w w1" by simp
  moreover have "only P w1 (world_of (f a w1))" by (rule assms(2))
  ultimately show ?thesis using Ok by (auto intro: only_trans)
next
  case (Abort e w1)
  with assms(1) show ?thesis by simp
qed

lemma only_download:
  "P (Download url name version) \<Longrightarrow> only P w (world_of (download p url name version w))"
  by (cases rule: download_cases [of p url name version w]) (auto intro: only_step)

lemma only_Deps:
  assumes "\<And>w'. only P w' (world_of (f w'))"
  shows "only P w (world_of (Deps name f w))"
proof (cases "name \<in> set (onces w)")
  case True
  then show ?thesis by (simp add: Deps_def)
next
  case False
  have "only P w (w\<lparr>onces := onces w @ [name]\<rparr>)"
    by (rule only_same_trace) simp
  moreover have "only P (w\<lparr>onces := onces w @ [name]\<rparr>) (world_of (f (w\<lparr>onces := onces w @ [name]\<rparr>)))"
    by (rule assms)
  ultimately show ?thesis using False by (auto simp: Deps_def intro: only_trans)
qed

lemma only_EnsureKubectl:
  assumes "\<And>v. P (Download kubectlURL ''kubectl'' v)"
  shows "only P w (world_of (EnsureKubectl p w))"
  unfolding EnsureKubectl_def
  by (auto split: option.splits intro: only_download assms)

lemma only_isContainerRunning:
  "P (Exec [''docker'', ''container'', ''inspect'', ''-f'', ''{{.State.Running}}'', name]) \<Longrightarrow>
   only P w (snd (isContainerRunning p name w))"
  by (cases "isContainerRunning p name w") (auto dest: isContainerRunning_trace intro: only_step)

lemma snd_containerExists: "snd (containerExists p name w) = snd (exec p [''docker'', ''inspect'', name] w)"
  by (simp add: containerExists_def split: prod.splits)

lemma world_of_removeContainer:
  "world_of (removeContainer p name w) = snd (exec p [''docker'', ''rm'', ''-f'', name] w)"
  by (simp add: removeContainer_def split: prod.splits)

lemma only_StopDockerRegistry:
  assumes "P (Exec [''docker'', ''inspect'', registryContainer])"
      and "P (Exec [''docker'', ''rm'', ''-f'', registryContainer])"
  shows "only P w (world_of (StopDockerRegistry p w))"
proof -
  obtain found w1 where c: "containerExists p registryContainer w = (found, w1)"
    by (metis surj_pair)
  then have "w1 = snd (exec p [''docker'', ''inspect'', registryContainer] w)"
    using snd_containerExists [of p registryContainer w] by simp
  then have 1: "only P w w1"
    using assms(1) by (simp add: only_exec)
  have 2: "only P w1 (world_of (removeContainer p registryContainer w1))"
    using assms(2) by (simp add: world_of_removeContainer only_exec)
  show ?thesis
    using c 1 2 by (auto simp: StopDockerRegistry_def intro: only_trans)
qed

lemma only_StartDockerRegistry:
  assumes "P (Exec [''docker'', ''container'', ''inspect'', ''-f'', ''{{.State.Running}}'', registryContainer])"
      and "P (Exec [''docker'', ''inspect'', registryContainer])"
      and "P (Exec [''docker'', ''rm'', ''-f'', registryContainer])"
      and "P (Exec dockerRunArgs)"
  shows "only P w (world_of (StartDockerRegistry p w))"
proof -
  obtain running w1 where r: "isContainerRunning p registryContainer w = (running, w1)"
    by (metis surj_pair)
  have 1: "only P w w1"
    using only_isContainerRunning [of P registryContainer w p] assms(1) r by simp
  have 2: "only P w1 (world_of (andThen (StopDockerRegistry p w1) (\<lambda>_. mustRun p dockerRunArgs)))"
    by (rule only_andThen) (auto intro: only_StopDockerRegistry only_mustRun assms)
  show ?thesis
    using r 1 2 by (auto simp: StartDockerRegistry_def dockerRunArgs_def intro: only_trans)
qed

lemma not_creation_configure:
  "\<not> creation_event (Exec [''docker'', ''container'', ''inspect'', ''-f'', ''{{.State.Running}}'', registryContainer])"
  "\<not> creation_event (Exec [''docker'', ''inspect'', registryContainer])"
  "\<not> creation_event (Exec [''docker'', ''rm'', ''-f'', registryContainer])"
  "\<not> creation_event (Exec dockerRunArgs)"
  "\<not> creation_event (Exec setContextArgs)"
  "\<not> creation_event (Exec [''flux'', ''install''])"
  "\<not> creation_event (Exec getKubeconfigArgs)"
  by (simp_all add: kindCreateArgs_def networkConnectArgs_def applyRegistryArgs_def dockerRunArgs_def
        setContextArgs_def getKubeconfigArgs_def)

lemma setClusterNamespace_operator:
  "setClusterNamespace p operatorNamespace w = mustRun p setContextArgs w"
  by (simp add: setClusterNamespace_def setContextArgs_def)

lemma only_configureCluster:
  assumes "\<And>argv. \<not> creation_event (Exec argv) \<Longrightarrow> P (Exec argv)"
  shows "only P w (world_of (configureCluster p w))"
  unfolding configureCluster_def setClusterNamespace_operator
  by (intro only_andThen only_Deps only_StartDockerRegistry only_mustRun assms not_creation_configure)


lemma only_EnsureKind:
  assumes "P (Download kindURL ''kind'' kindVersion)"
  shows "only P w (world_of (EnsureKind p w))"
  unfolding EnsureKind_def by (auto intro: only_download assms)

lemma only_deferred:
  assumes "only P w (world_of r)" and "\<And>w'. only P w' (f w')"
  shows "only P w (world_of (deferred f r))"
  using assms by (auto intro: only_trans)

lemma only_renderAndCreate:
  assumes c: "\<And>e. creation_event e \<Longrightarrow> P e" and s: "\<And>v. P (Setenv ''KUBECONFIG'' v)"
  shows "only P w (world_of (renderAndCreate p ip w))"
proof -
  let ?w1 = "os_Setenv ''KUBECONFIG'' (filepath_Join p (pwd w) kubeconfig) w"
  have 1: "only P w ?w1"
    by (rule only_step [where e = "Setenv ''KUBECONFIG'' (filepath_Join p (pwd w) kubeconfig)"]) (simp_all add: s)
  show ?thesis
  proof (cases rule: renderAndCreate_cases [of p ip w])
    case (early e)
    with 1 show ?thesis by simp
  next
    case (written kindCfg w2)
    from written(2) have "trace w2 = trace ?w1 @ [WriteFile ''kind.config.yaml'' (fst (template_Execute p kindCfg ip))]"
      by (auto dest: ioutil_WriteFile_Some)
    then have 2: "only P ?w1 w2"
      by (rule only_step) (simp add: c)
    have 3: "only P w2 (world_of (andThen (mustRun p kindCreateArgs w2)
              (\<lambda>_ w3. andThen (mustRun p networkConnectArgs w3) (\<lambda>_. mustRun p applyRegistryArgs))))"
      by (intro only_andThen only_mustRun c) simp_all
    have 4: "\<And>w'. only P w' (os_Remove p ''kind.config.yaml'' w')"
      by (rule only_step [where e = "Remove ''kind.config.yaml''"]) (simp_all add: c)
    from 3 4 have "only P w2 (world_of (renderAndCreate p ip w))"
      unfolding written(3) by (rule only_deferred)
    with 1 2 show ?thesis by (blast intro: only_trans)
  qed
qed

lemma only_CreateKindCluster:
  assumes c: "\<And>e. creation_event e \<Longrightarrow> P e" and s: "\<And>v. P (Setenv ''KUBECONFIG'' v)"
  shows "only P w (world_of (CreateKindCluster p w))"
  unfolding CreateKindCluster_def
proof (rule only_andThen)
  show "only P w (world_of (Deps ''EnsureKind'' (EnsureKind p) w))"
    by (intro only_Deps only_EnsureKind c) simp
next
  fix a w'
  show "only P w' (world_of (case InterfaceAddrs p w' of None \<Rightarrow> Abort InterfaceAddrsFailed w'
          | Some addrs \<Rightarrow> renderAndCreate p (hostAddress (ip_other p) addrs) w'))"
    by (cases "InterfaceAddrs p w'") (simp_all add: only_renderAndCreate c s)
qed

lemma getClusterConfig_trace:
  "getClusterConfig p w = (r, w') \<Longrightarrow> trace w' = trace w @ [Exec getKubeconfigArgs]"
  by (auto simp: getClusterConfig_def getKubeconfigArgs_def dest: exec_eqD)

lemma useCluster_reuse:
  assumes look: "getClusterConfig p w1 = ((contents, True), w2)"
      and wr: "writable p kubeconfig (os_Setenv ''KUBECONFIG'' (filepath_Join p (pwd w2) kubeconfig) w2)"
  shows "useCluster p w1 =
           andThen (mustRun p setContextArgs
              ((os_Setenv ''KUBECONFIG'' (filepath_Join p (pwd w2) kubeconfig) w2)
                 \<lparr>files := (files w2)(kubeconfig \<mapsto> contents),
                  trace := trace w2 @ [Setenv ''KUBECONFIG'' (filepath_Join p (pwd w2) kubeconfig),
                                       WriteFile kubeconfig contents]\<rparr>))
             (\<lambda>_. Ok True)"
  using look wr
  by (simp add: useCluster_def Let_def ioutil_WriteFile_def setClusterNamespace_operator)

lemma useCluster_unwritable:
  assumes look: "getClusterConfig p w1 = ((contents, True), w2)"
      and wr: "\<not> writable p kubeconfig (os_Setenv ''KUBECONFIG'' (filepath_Join p (pwd w2) kubeconfig) w2)"
  shows "useCluster p w1 = Abort (WriteFailed kubeconfig) (os_Setenv ''KUBECONFIG'' (filepath_Join p (pwd w2) kubeconfig) w2)"
  using look wr
  by (simp add: useCluster_def Let_def ioutil_WriteFile_def)

lemma useCluster_absent:
  "getClusterConfig p w1 = ((contents, False), w2) \<Longrightarrow> useCluster p w1 = Ok False w2"
  by (simp add: useCluster_def)


lemma only_useCluster:
  assumes x: "\<And>argv. \<not> creation_event (Exec argv) \<Longrightarrow> P (Exec argv)"
      and s: "\<And>v. P (Setenv ''KUBECONFIG'' v)"
      and k: "\<And>c. P (WriteFile kubeconfig c)"
  shows "only P w (world_of (useCluster p w))"
proof -
  obtain contents ok w2 where look: "getClusterConfig p w = ((contents, ok), w2)"
    by (metis surj_pair)
  let ?path = "filepath_Join p (pwd w2) kubeconfig"
  let ?w2' = "os_Setenv ''KUBECONFIG'' ?path w2"
  have 1: "only P w w2"
    using getClusterConfig_trace [OF look] by (rule only_step) (intro x not_creation_configure)
  have 2: "only P w2 ?w2'"
    by (rule only_step [where e = "Setenv ''KUBECONFIG'' ?path"]) (simp_all add: s)
  show ?thesis
  proof (cases ok)
    case False
    with look 1 show ?thesis by (simp add: useCluster_absent)
  next
    case True
    show ?thesis
    proof (cases "writable p kubeconfig ?w2'")
      case False
      with look True 1 2 show ?thesis
        by (auto simp: useCluster_unwritable intro: only_trans)
    next
      case wr: True
      let ?w3 = "?w2'\<lparr>files := (files w2)(kubeconfig \<mapsto> contents),
                  trace := trace w2 @ [Setenv ''KUBECONFIG'' ?path, WriteFile kubeconfig contents]\<rparr>"
      have "trace ?w3 = trace ?w2' @ [WriteFile kubeconfig contents]" by simp
      then have 3: "only P ?w2' ?w3"
        by (rule only_step) (rule k)
      have 4: "only P ?w3 (world_of (andThen (mustRun p setContextArgs ?w3) (\<lambda>_. Ok True)))"
        by (intro only_andThen only_mustRun x not_creation_configure) simp
      from look True wr have "useCluster p w = andThen (mustRun p setContextArgs ?w3) (\<lambda>_. Ok True)"
        by (simp add: useCluster_reuse)
      with 1 2 3 4 show ?thesis
        by (auto intro: only_trans)
    qed
  qed
qed

lemma useCluster_reuse_result:
  assumes "getClusterConfig p w1 = ((contents, True), w2)"
  shows "(\<exists>w'. useCluster p w1 = Ok True w') \<or> (\<exists>e w'. useCluster p w1 = Abort e w')"
proof (cases "writable p kubeconfig (os_Setenv ''KUBECONFIG'' (filepath_Join p (pwd w2) kubeconfig) w2)")
  case True
  let ?w3 = "(os_Setenv ''KUBECONFIG'' (filepath_Join p (pwd w2) kubeconfig) w2)
                 \<lparr>files := (files w2)(kubeconfig \<mapsto> contents),
                  trace := trace w2 @ [Setenv ''KUBECONFIG'' (filepath_Join p (pwd w2) kubeconfig),
                                       WriteFile kubeconfig contents]\<rparr>"
  show ?thesis
    unfolding useCluster_reuse [OF assms True]
    by (cases rule: mustRun_cases [of p setContextArgs ?w3]) auto
next
  case False
  then show ?thesis by (simp add: useCluster_unwritable [OF assms])
qed

lemma not_creation_reuse:
  "\<not> creation_event (Setenv k v)" "\<not> creation_event (WriteFile kubeconfig c)"
  "\<not> creation_event (Download kubectlURL ''kubectl'' v)"
  by (simp_all add: kubeconfig_def)

text \<open>C1: when the lookup \<open>kind get kubeconfig --name porter\<close> succeeds,
  \<open>EnsureCluster\<close> performs none of the effects of \<open>CreateKindCluster\<close>, on any
  path. Where the credential file can be written, the effects that follow the
  lookup are: pointing \<open>KUBECONFIG\<close> at the canonical path, writing exactly the
  fetched contents to \<open>kind.config\<close>, and setting the namespace of the current
  context to the operator namespace; then \<open>configureCluster\<close> runs. Where the
  file cannot be written the build stops on that error.\<close>

theorem EnsureCluster_reuse:
  assumes deps: "Deps ''EnsureKubectl'' (EnsureKubectl p) w = Ok () w1"
      and look: "getClusterConfig p w1 = ((contents, True), w2)"
  shows "(\<forall>e\<in>set (new_events w (world_of (EnsureCluster p w))). \<not> creation_event e)
       \<and> (writable p kubeconfig (os_Setenv ''KUBECONFIG'' (filepath_Join p (pwd w2) kubeconfig) w2) \<longrightarrow>
            take 4 (new_events w1 (world_of (EnsureCluster p w))) =
              [Exec getKubeconfigArgs,
               Setenv ''KUBECONFIG'' (filepath_Join p (pwd w2) kubeconfig),
               WriteFile kubeconfig contents,
               Exec setContextArgs]
            \<and> (\<exists>w3. files w3 kubeconfig = Some contents
                  \<and> EnsureCluster p w = andThen (setClusterNamespace p operatorNamespace w3)
                                          (\<lambda>_. configureCluster p)))
       \<and> (\<not> writable p kubeconfig (os_Setenv ''KUBECONFIG'' (filepath_Join p (pwd w2) kubeconfig) w2) \<longrightarrow>
            EnsureCluster p w = Abort (WriteFailed kubeconfig)
              (os_Setenv ''KUBECONFIG'' (filepath_Join p (pwd w2) kubeconfig) w2))"
proof -
  let ?P = "\<lambda>e. \<not> creation_event e"
  let ?path = "filepath_Join p (pwd w2) kubeconfig"
  let ?w2' = "os_Setenv ''KUBECONFIG'' ?path w2"
  let ?w3 = "?w2'\<lparr>files := (files w2)(kubeconfig \<mapsto> contents),
                  trace := trace w2 @ [Setenv ''KUBECONFIG'' ?path, WriteFile kubeconfig contents]\<rparr>"
  have ec: "EnsureCluster p w =
              andThen (useCluster p w1)
                (\<lambda>used w2. if \<not> used then andThen (CreateKindCluster p w2) (\<lambda>_. configureCluster p)
                            else configureCluster p w2)"
    using deps by (simp add: EnsureCluster_def)
  have t2: "trace w2 = trace w1 @ [Exec getKubeconfigArgs]"
    using look by (rule getClusterConfig_trace)
  \<comment> \<open>no effect of the creation path\<close>
  have "only ?P w (world_of (Deps ''EnsureKubectl'' (EnsureKubectl p) w))"
    by (intro only_Deps only_EnsureKubectl not_creation_reuse)
  then have o1: "only ?P w w1" using deps by simp
  have o2: "only ?P w1 (world_of (useCluster p w1))"
    by (intro only_useCluster not_creation_reuse) simp
  have o3: "only ?P w1 (world_of (EnsureCluster p w))"
  proof -
    from useCluster_reuse_result [OF look] consider
        (ok) w' where "useCluster p w1 = Ok True w'"
      | (abort) e w' where "useCluster p w1 = Abort e w'"
      by blast
    then show ?thesis
    proof cases
      case ok
      with o2 have "only ?P w1 w'" by simp
      moreover have "only ?P w' (world_of (configureCluster p w'))"
        by (rule only_configureCluster) simp
      ultimately show ?thesis using ok ec by (auto intro: only_trans)
    next
      case abort
      with o2 ec show ?thesis by simp
    qed
  qed
  from o1 o3 have "only ?P w (world_of (EnsureCluster p w))"
    by (rule only_trans)
  then have a: "\<forall>e\<in>set (new_events w (world_of (EnsureCluster p w))). \<not> creation_event e"
    by (rule only_new_events)
  \<comment> \<open>the reuse path when the credential file can be written\<close>
  have b: "take 4 (new_events w1 (world_of (EnsureCluster p w))) =
              [Exec getKubeconfigArgs, Setenv ''KUBECONFIG'' ?path, WriteFile kubeconfig contents,
               Exec setContextArgs]
            \<and> (\<exists>w3. files w3 kubeconfig = Some contents
                  \<and> EnsureCluster p w = andThen (setClusterNamespace p operatorNamespace w3)
                                          (\<lambda>_. configureCluster p))"
    if wr: "writable p kubeconfig ?w2'"
  proof -
    have u: "useCluster p w1 = andThen (mustRun p setContextArgs ?w3) (\<lambda>_. Ok True)"
      using look wr by (rule useCluster_reuse)
    have e: "EnsureCluster p w = andThen (mustRun p setContextArgs ?w3) (\<lambda>_. configureCluster p)"
      unfolding ec u by (cases "mustRun p setContextArgs ?w3") simp_all
    have "\<exists>es. trace (world_of (andThen (mustRun p setContextArgs ?w3) (\<lambda>_. configureCluster p)))
                = trace ?w3 @ Exec setContextArgs # es"
    proof (cases rule: mustRun_cases [of p setContextArgs ?w3])
      case (1 w4)
      have "only (\<lambda>e. True) w4 (world_of (configureCluster p w4))"
        by (rule only_configureCluster) simp
      then obtain es where "trace (world_of (configureCluster p w4)) = trace w4 @ es"
        by (auto simp: only_def)
      with 1 show ?thesis by simp
    next
      case (2 w4)
      then show ?thesis by simp
    qed
    then obtain es where "trace (world_of (EnsureCluster p w)) = trace ?w3 @ Exec setContextArgs # es"
      using e by auto
    then have "trace (world_of (EnsureCluster p w)) =
        trace w1 @ [Exec getKubeconfigArgs, Setenv ''KUBECONFIG'' ?path, WriteFile kubeconfig contents,
               Exec setContextArgs] @ es"
      using t2 by simp
    then have 1: "take 4 (new_events w1 (world_of (EnsureCluster p w))) =
              [Exec getKubeconfigArgs, Setenv ''KUBECONFIG'' ?path, WriteFile kubeconfig contents,
               Exec setContextArgs]"
      by (simp add: new_events_def)
    have "files ?w3 kubeconfig = Some contents" by simp
    with e have 2: "\<exists>w3. files w3 kubeconfig = Some contents
                  \<and> EnsureCluster p w = andThen (setClusterNamespace p operatorNamespace w3)
                                          (\<lambda>_. configureCluster p)"
      unfolding setClusterNamespace_operator by blast
    from 1 2 show ?thesis ..
  qed
  \<comment> \<open>the write fails\<close>
  have c: "EnsureCluster p w = Abort (WriteFailed kubeconfig) ?w2'"
    if "\<not> writable p kubeconfig ?w2'"
    unfolding ec using useCluster_unwritable [OF look that] by simp
  from a b c show ?thesis by blast
qed

text \<open>C2: when the lookup fails, \<open>useCluster\<close> returns false having done
  nothing but the lookup (the failure is not an error), \<open>EnsureCluster\<close> is
  \<open>CreateKindCluster\<close> followed by \<open>configureCluster\<close>, and no effect of the
  reuse branch (writing the credential file) occurs in the whole run.\<close>

theorem EnsureCluster_create:
  assumes deps: "Deps ''EnsureKubectl'' (EnsureKubectl p) w = Ok () w1"
      and look: "getClusterConfig p w1 = ((contents, False), w2)"
  shows "useCluster p w1 = Ok False w2
       \<and> new_events w1 w2 = [Exec getKubeconfigArgs]
       \<and> EnsureCluster p w = andThen (CreateKindCluster p w2) (\<lambda>_. configureCluster p)
       \<and> (\<forall>e\<in>set (new_events w (world_of (EnsureCluster p w))). \<not> reuse_event e)"
proof -
  let ?P = "\<lambda>e. \<not> reuse_event e"
  have u: "useCluster p w1 = Ok False w2"
    using look by (rule useCluster_absent)
  have t2: "trace w2 = trace w1 @ [Exec getKubeconfigArgs]"
    using look by (rule getClusterConfig_trace)
  have ec: "EnsureCluster p w = andThen (CreateKindCluster p w2) (\<lambda>_. configureCluster p)"
    using deps u by (simp add: EnsureCluster_def)
  have "only ?P w (world_of (Deps ''EnsureKubectl'' (EnsureKubectl p) w))"
    by (intro only_Deps only_EnsureKubectl) simp
  then have o1: "only ?P w w1" using deps by simp
  have o2: "only ?P w1 w2"
    using t2 by (rule only_step) simp
  have nr: "\<And>e. creation_event e \<Longrightarrow> \<not> reuse_event e"
    by (case_tac e) (simp_all add: kubeconfig_def)
  have o3: "only ?P w2 (world_of (andThen (CreateKindCluster p w2) (\<lambda>_. configureCluster p)))"
  proof (rule only_andThen)
    show "only ?P w2 (world_of (CreateKindCluster p w2))"
      by (rule only_CreateKindCluster) (simp_all add: nr)
  next
    fix a w'
    show "only ?P w' (world_of (configureCluster p w'))"
      by (rule only_configureCluster) simp
  qed
  from o1 o2 o3 have "only ?P w (world_of (EnsureCluster p w))"
    unfolding ec by (blast intro: only_trans)
  then have "\<forall>e\<in>set (new_events w (world_of (EnsureCluster p w))). \<not> reuse_event e"
    by (rule only_new_events)
  with u t2 ec show ?thesis by simp
qed


lemma Deps_EnsureKubectl_scripted:
  "Deps ''EnsureKubectl'' (EnsureKubectl (scripted tbl addrs b)) (world0 ())
     = Ok () ((world0 ())\<lparr>onces := [''EnsureKubectl'']\<rparr>)"
  by (simp add: Deps_def EnsureKubectl_def world0_def)

lemma getClusterConfig_scripted:
  "getClusterConfig (scripted tbl addrs b) w = (respond tbl getKubeconfigArgs, w\<lparr>trace := trace w @ [Exec getKubeconfigArgs]\<rparr>)"
  by (simp add: getClusterConfig_def getKubeconfigArgs_def exec_scripted)

theorem EnsureCluster_reuse_witness:
  "take 4 (trace (world_of (EnsureCluster (scripted [(getKubeconfigArgs, ''apiVersion: v1'', True)] [] True) (world0 ()))))
     = [Exec getKubeconfigArgs, Setenv ''KUBECONFIG'' ''/src/kind.config'',
        WriteFile kubeconfig ''apiVersion: v1'', Exec setContextArgs]
   \<and> Exec kindCreateArgs \<notin> set (trace (world_of
         (EnsureCluster (scripted [(getKubeconfigArgs, ''apiVersion: v1'', True)] [] True) (world0 ()))))"
proof -
  let ?p = "scripted [(getKubeconfigArgs, ''apiVersion: v1'', True)] [] True"
  let ?w1 = "(world0 ())\<lparr>onces := [''EnsureKubectl'']\<rparr>"
  let ?w2 = "?w1\<lparr>trace := trace ?w1 @ [Exec getKubeconfigArgs]\<rparr>"
  let ?W = "world_of (EnsureCluster ?p (world0 ()))"
  have deps: "Deps ''EnsureKubectl'' (EnsureKubectl ?p) (world0 ()) = Ok () ?w1"
    by (rule Deps_EnsureKubectl_scripted)
  have look: "getClusterConfig ?p ?w1 = ((''apiVersion: v1'', True), ?w2)"
    by (simp add: getClusterConfig_scripted respond_hit)
  have wr: "writable ?p kubeconfig (os_Setenv ''KUBECONFIG'' (filepath_Join ?p (pwd ?w2) kubeconfig) ?w2)"
    by simp
  have j: "filepath_Join ?p (pwd ?w2) kubeconfig = ''/src/kind.config''"
    by (simp add: pwd_def world0_def kubeconfig_def)
  have n0: "new_events (world0 ()) ?W = trace ?W"
    by (simp add: new_events_def world0_def)
  have n1: "new_events ?w1 ?W = trace ?W"
    by (simp add: new_events_def world0_def)
  note r = EnsureCluster_reuse [OF deps look]
  from r wr have "take 4 (new_events ?w1 ?W) =
      [Exec getKubeconfigArgs, Setenv ''KUBECONFIG'' (filepath_Join ?p (pwd ?w2) kubeconfig),
       WriteFile kubeconfig ''apiVersion: v1'', Exec setContextArgs]"
    by blast
  then have 1: "take 4 (trace ?W) =
      [Exec getKubeconfigArgs, Setenv ''KUBECONFIG'' ''/src/kind.config'',
       WriteFile kubeconfig ''apiVersion: v1'', Exec setContextArgs]"
    unfolding n1 j .
  from r have "\<forall>e\<in>set (new_events (world0 ()) ?W). \<not> creation_event e"
    by blast
  then have "\<forall>e\<in>set (trace ?W). \<not> creation_event e"
    unfolding n0 .
  moreover have "creation_event (Exec kindCreateArgs)"
    by simp
  ultimately have 2: "Exec kindCreateArgs \<notin> set (trace ?W)"
    by blast
  from 1 2 show ?thesis ..
qed

theorem EnsureCluster_create_witness:
  "useCluster (scripted [] [] True) ((world0 ())\<lparr>onces := [''EnsureKubectl'']\<rparr>)
     = Ok False ((world0 ())\<lparr>onces := [''EnsureKubectl''], trace := [Exec getKubeconfigArgs]\<rparr>)
   \<and> EnsureCluster (scripted [] [] True) (world0 ())
     = andThen (CreateKindCluster (scripted [] [] True)
                  ((world0 ())\<lparr>onces := [''EnsureKubectl''], trace := [Exec getKubeconfigArgs]\<rparr>))
         (\<lambda>_. configureCluster (scripted [] [] True))
   \<and> WriteFile kubeconfig [] \<notin> set (trace (world_of (EnsureCluster (scripted [] [] True) (world0 ()))))"
proof -
  let ?p = "scripted [] [] True"
  let ?w1 = "(world0 ())\<lparr>onces := [''EnsureKubectl'']\<rparr>"
  let ?w2 = "?w1\<lparr>trace := trace ?w1 @ [Exec getKubeconfigArgs]\<rparr>"
  let ?W = "world_of (EnsureCluster ?p (world0 ()))"
  have deps: "Deps ''EnsureKubectl'' (EnsureKubectl ?p) (world0 ()) = Ok () ?w1"
    by (rule Deps_EnsureKubectl_scripted)
  have look: "getClusterConfig ?p ?w1 = (([], False), ?w2)"
    by (simp add: getClusterConfig_scripted respond_def)
  have w2: "?w2 = (world0 ())\<lparr>onces := [''EnsureKubectl''], trace := [Exec getKubeconfigArgs]\<rparr>"
    by (simp add: world0_def)
  have n0: "new_events (world0 ()) ?W = trace ?W"
    by (simp add: new_events_def world0_def)
  note r = EnsureCluster_create [OF deps look]
  from r have 1: "useCluster ?p ?w1 = Ok False ?w2"
    by blast
  from r have 2: "EnsureCluster ?p (world0 ()) = andThen (CreateKindCluster ?p ?w2) (\<lambda>_. configureCluster ?p)"
    by blast
  from r have "\<forall>e\<in>set (new_events (world0 ()) ?W). \<not> reuse_event e"
    by blast
  then have "\<forall>e\<in>set (trace ?W). \<not> reuse_event e"
    unfolding n0 .
  moreover have "reuse_event (WriteFile kubeconfig [])"
    by simp
  ultimately have 3: "WriteFile kubeconfig [] \<notin> set (trace ?W)"
    by blast
  from 1 2 3 show ?thesis
    unfolding w2 by blast
qed

end
